theory Spec2Isabelle
  imports Complex_Main
begin

section \<open>The demographic analytics dashboard module (demographic_analytics.js)\<close>

text \<open>
  The module fetches four JSON documents, projects them into DOM elements and Plotly
  charts, and repeats part of that on a timer.  The embedding follows the source function
  by function.  The source starts with eight lines of Java (imports and a class header)
  and a class \<open>DemographicAnalytics\<close> whose six fields are set to \<open>null\<close> and never
  read; neither takes part in what the functions do, and neither is modelled.
  Conventions:
  \<^item> a JavaScript number is an exact rational (\<open>Num\<close>) or \<open>NaN\<close>; the IEEE rounding of
    doubles is not modelled;
  \<^item> an API response is a record of the shape the code reads it at, and each of its fields
    is an \<open>option\<close>: \<open>None\<close> is a field that is missing (\<open>undefined\<close> when read);
    counts and means are numbers, labels are arbitrary strings;
  \<^item> a thrown exception, or the rejection of an awaited promise, is \<open>Some e\<close> in the
    first component of an action's result; the state reached up to the throw is kept.
\<close>

subsection \<open>JavaScript values and arithmetic\<close>

text \<open>
  \<open>Inherited k\<close> is what reading the property \<open>k\<close> of a plain object literal returns
  when \<open>k\<close> is not an own property but a property of \<open>Object.prototype\<close>: a built-in
  function (the prototype object itself for \<open>__proto__\<close>).
\<close>

datatype jsval = Undefined | Num rat | NaN | Inherited string

definition object_prototype :: "string list" where
  "object_prototype =
     [''constructor'', ''hasOwnProperty'', ''isPrototypeOf'', ''propertyIsEnumerable'',
      ''toLocaleString'', ''toString'', ''valueOf'', ''__proto__'',
      ''__defineGetter__'', ''__defineSetter__'', ''__lookupGetter__'', ''__lookupSetter__'']"

text \<open>\<open>obj[key]\<close> on an object literal whose own properties are numbers.\<close>

definition get_property :: "(string \<times> rat) list \<Rightarrow> string \<Rightarrow> jsval" where
  "get_property obj key =
     (case map_of obj key of
        Some v \<Rightarrow> Num v
      | None \<Rightarrow> if key \<in> set object_prototype then Inherited key else Undefined)"

fun truthy :: "jsval \<Rightarrow> bool" where
  "truthy Undefined = False"
| "truthy (Num x) = (x \<noteq> 0)"
| "truthy NaN = False"
| "truthy (Inherited k) = True"

text \<open>\<open>a || b\<close>\<close>

definition or_else :: "jsval \<Rightarrow> jsval \<Rightarrow> jsval" where
  "or_else a b = (if truthy a then a else b)"

text \<open>\<open>ToNumber\<close>: \<open>undefined\<close>, a function and a plain object all convert to \<open>NaN\<close>.\<close>

fun to_number :: "jsval \<Rightarrow> jsval" where
  "to_number (Num x) = Num x"
| "to_number v = NaN"

fun times :: "jsval \<Rightarrow> jsval \<Rightarrow> jsval" where
  "times a b =
     (case (to_number a, to_number b) of (Num x, Num y) \<Rightarrow> Num (x * y) | _ \<Rightarrow> NaN)"

fun plus_num :: "jsval \<Rightarrow> jsval \<Rightarrow> jsval" where
  "plus_num a b =
     (case (to_number a, to_number b) of (Num x, Num y) \<Rightarrow> Num (x + y) | _ \<Rightarrow> NaN)"

text \<open>\<open>a / c\<close> for a divisor \<open>c\<close> that the caller has tested to be positive.\<close>

fun divide_by :: "jsval \<Rightarrow> rat \<Rightarrow> jsval" where
  "divide_by a c = (case to_number a of Num x \<Rightarrow> Num (x / c) | _ \<Rightarrow> NaN)"

text \<open>\<open>Math.round\<close>: the integer nearest to the argument, a tie going up.\<close>

fun Math_round :: "jsval \<Rightarrow> jsval" where
  "Math_round (Num x) = Num (of_int \<lfloor>x + 1 / 2\<rfloor>)"
| "Math_round v = NaN"

subsection \<open>The average age shown in the overview\<close>

definition estimates :: "(string \<times> rat) list" where
  "estimates =
     [(''Neonate (0-28 days)'', 4 / 100),
      (''Infant (29 days - 1 year)'', 5 / 10),
      (''Toddler (1-3 years)'', 2),
      (''Preschool (3-5 years)'', 4),
      (''School Age (5-12 years)'', 8),
      (''Adolescent (12-18 years)'', 15),
      (''Young Adult (18-40 years)'', 29),
      (''Middle Adult (40-65 years)'', 52),
      (''Geriatric (>65 years)'', 75)]"

definition estimateAverageAge :: "string \<Rightarrow> jsval" where
  "estimateAverageAge ageGroup = or_else (get_property estimates ageGroup) (Num 40)"

text \<open>
  Lines 64 to 77 of \<open>loadOverviewData\<close>.  The loop visits the own keys of the
  distribution and reads each key's count, that is, it visits the entries; the pair
  \<open>(totalAge, count)\<close> is the loop's state.  Counts are numbers, so \<open>count\<close> stays a
  number, while \<open>totalAge\<close> is \<open>NaN\<close> once a representative age is not a number.
\<close>

definition accumulate :: "jsval \<times> rat \<Rightarrow> string \<times> rat \<Rightarrow> jsval \<times> rat" where
  "accumulate acc entry =
     (case (acc, entry) of
        ((totalAge, count), (ageGroup, groupCount)) \<Rightarrow>
          (let avgAge = estimateAverageAge ageGroup
           in (plus_num totalAge (times avgAge (Num groupCount)), count + groupCount)))"

definition averageAge :: "(string \<times> rat) list \<Rightarrow> jsval" where
  "averageAge age_group_distribution =
     (case foldl accumulate (Num 0, 0) age_group_distribution of
        (totalAge, count) \<Rightarrow>
          if count > 0 then Math_round (divide_by totalAge count) else Num 0)"

subsection \<open>Exceptions, promises and control flow\<close>

text \<open>
  \<open>NetworkError\<close> is a rejected \<open>fetch\<close>, \<open>ParseError\<close> a rejected \<open>response.json()\<close>,
  \<open>TypeError\<close> a property read or write on \<open>null\<close> or \<open>undefined\<close>, and \<open>PlotlyError\<close>
  what \<open>Plotly.newPlot\<close> throws when the page has no element with the target id.
\<close>

datatype exn = NetworkError | ParseError | TypeError | PlotlyError

text \<open>
  An action runs on a state and returns the exception it threw, if any, with the state it
  reached.  For an \<open>async\<close> function the first component is how its promise settles:
  \<open>None\<close> for fulfilled, \<open>Some e\<close> for rejected with \<open>e\<close>.
\<close>

type_synonym 's action = "'s \<Rightarrow> exn option \<times> 's"

definition skip :: "'s action" where
  "skip s = (None, s)"

definition throw :: "exn \<Rightarrow> 's action" where
  "throw e s = (Some e, s)"

text \<open>Statements in sequence (each \<open>await\<close>ed where the source awaits): the first throw ends the block.\<close>

fun block :: "'s action list \<Rightarrow> 's action" where
  "block [] s = (None, s)"
| "block (a # as) s =
     (case a s of (None, s') \<Rightarrow> block as s' | (Some e, s') \<Rightarrow> (Some e, s'))"

text \<open>\<open>try { body } catch (error) { handler }\<close>\<close>

definition try_catch :: "'s action \<Rightarrow> (exn \<Rightarrow> 's action) \<Rightarrow> 's action" where
  "try_catch body handler s =
     (case body s of (None, s') \<Rightarrow> (None, s') | (Some e, s') \<Rightarrow> handler e s')"

text \<open>\<open>items.forEach(f)\<close>\<close>

definition forEach :: "'a list \<Rightarrow> ('a \<Rightarrow> 's action) \<Rightarrow> 's action" where
  "forEach items f = block (map f items)"

text \<open>
  What one \<open>fetch\<close> of an endpoint leads to: a rejection (of \<open>fetch\<close> or of
  \<open>response.json()\<close>) or the parsed body.
\<close>

datatype 'a fetched = Rejected exn | Body 'a

text \<open>\<open>const response = await fetch(url); const data = await response.json(); \<dots>\<close>\<close>

definition fetch_json :: "'a fetched \<Rightarrow> ('a \<Rightarrow> 's action) \<Rightarrow> 's action" where
  "fetch_json response continue =
     (case response of Rejected e \<Rightarrow> throw e | Body data \<Rightarrow> continue data)"

subsection \<open>The page\<close>

text \<open>
  Display text keeps the values interpolated into it: \<open>NumStr v\<close> is the string
  conversion of \<open>v\<close> in a template literal, \<open>Fixed2 x\<close> is \<open>x.toFixed(2)\<close> and
  \<open>Locale x\<close> is \<open>x.toLocaleString()\<close>.
\<close>

datatype piece = Lit string | NumStr jsval | Fixed2 rat | Locale rat

text \<open>
  A Plotly trace: labels (\<open>x\<close> or \<open>labels\<close>), values (\<open>y\<close> or \<open>values\<close>, \<open>None\<close> for
  \<open>undefined\<close>), \<open>name\<close> and \<open>type\<close>.  Colours, legends and axis titles are constants
  of the source and are left out.
\<close>

datatype trace = Trace "string list" "rat option list" "string option" string

text \<open>
  A child node: text, an element (tag, class, children), a plot (traces, title), or
  \<open>Markup\<close>: the nodes that the HTML parser makes of a string assigned to \<open>innerHTML\<close>,
  kept as that string.  Inside \<open>Markup\<close> every piece is markup source, so a value
  interpolated there is parsed with the rest: a label holding tags becomes elements, not
  text.  Markup that the source writes out in full, with no value of a response in it
  (notifications, rows of the norms table), is kept as the element tree it denotes.
\<close>

datatype node =
    Text "piece list"
  | Element string string "node list"
  | Markup "piece list"
  | Plot "trace list" string

text \<open>
  The elements the module looks up, by id (by selector for the table body), each with its
  child nodes.  \<open>None\<close>: \<open>getElementById\<close> returns \<open>null\<close>.
\<close>

type_synonym dom = "string \<Rightarrow> node list option"

text \<open>\<open>document.getElementById(id).textContent = text\<close>\<close>

definition set_textContent :: "string \<Rightarrow> piece list \<Rightarrow> dom action" where
  "set_textContent ident text d =
     (case d ident of None \<Rightarrow> (Some TypeError, d) | Some kids \<Rightarrow> (None, d(ident \<mapsto> [Text text])))"

text \<open>\<open>element.innerHTML = ''\<close>\<close>

definition clear_innerHTML :: "string \<Rightarrow> dom action" where
  "clear_innerHTML ident d =
     (case d ident of None \<Rightarrow> (Some TypeError, d) | Some kids \<Rightarrow> (None, d(ident \<mapsto> [])))"

text \<open>\<open>element.appendChild(child)\<close>\<close>

definition appendChild :: "string \<Rightarrow> node \<Rightarrow> dom action" where
  "appendChild ident child d =
     (case d ident of None \<Rightarrow> (Some TypeError, d) | Some kids \<Rightarrow> (None, d(ident \<mapsto> kids @ [child])))"

text \<open>\<open>Plotly.newPlot(id, traces, layout)\<close> draws a new plot in the target, in place of what it showed.\<close>

definition newPlot :: "string \<Rightarrow> trace list \<Rightarrow> string \<Rightarrow> dom action" where
  "newPlot ident traces title d =
     (case d ident of None \<Rightarrow> (Some PlotlyError, d)
      | Some kids \<Rightarrow> (None, d(ident \<mapsto> [Plot traces title])))"

datatype step =
    LoadOverviewData | LoadGenderAnalysis | LoadAgeGroupAnalysis
  | LoadRiskStratification | LoadDemographicInsights | LoadPopulationNorms

datatype entry = Log string | Error string exn

datatype callback = UpdateDemographicData

record timer =
  handler :: callback
  period :: nat
  due :: nat

text \<open>
  \<open>notifications\<close> are the elements that \<open>showError\<close> and \<open>showNotification\<close> append to
  \<open>document.body\<close> (the timeouts that take them away again after 5 s and 3 s are not
  modelled); \<open>timers\<close> are the intervals registered with \<open>setInterval\<close>; \<open>clock\<close> is
  the time in ms; \<open>calls\<close> records each load step as it is entered.
\<close>

record page =
  document :: dom
  notifications :: "node list"
  console :: "entry list"
  timers :: "timer list"
  clock :: nat
  calls :: "step list"

definition on_document :: "dom action \<Rightarrow> page action" where
  "on_document a s = (case a (document s) of (r, d) \<Rightarrow> (r, s\<lparr>document := d\<rparr>))"

definition console_log :: "string \<Rightarrow> page action" where
  "console_log message s = (None, s\<lparr>console := console s @ [Log message]\<rparr>)"

definition console_error :: "string \<Rightarrow> exn \<Rightarrow> page action" where
  "console_error message e s = (None, s\<lparr>console := console s @ [Error message e]\<rparr>)"

definition called :: "step \<Rightarrow> page action" where
  "called f s = (None, s\<lparr>calls := calls s @ [f]\<rparr>)"

text \<open>\<open>setInterval(callback, ms)\<close>: the first firing is due \<open>ms\<close> from now.\<close>

definition setInterval :: "callback \<Rightarrow> nat \<Rightarrow> page action" where
  "setInterval f ms s =
     (None, s\<lparr>timers := timers s @ [\<lparr>handler = f, period = ms, due = clock s + ms\<rparr>]\<rparr>)"

subsection \<open>The API responses\<close>

text \<open>The shapes the four endpoints are read at; every field may be missing.\<close>

record gender_dist =
  male :: "rat option"
  female :: "rat option"
  other :: "rat option"

record summary =
  total_patients :: "rat option"
  age_group_distribution :: "(string \<times> rat) list option"
  gender_distribution :: "gender_dist option"

record dashboard =
  summary :: "summary option"

record comparison =
  male_mean :: "rat option"
  female_mean :: "rat option"
  p_value :: "rat option"

record gender_analysis =
  gender_comparisons :: "(string \<times> comparison) list option"

record stat =
  mean :: "rat option"

record means =
  heart_rate :: "(string \<times> stat) list option"

record age_analysis =
  age_group_counts :: "(string \<times> rat) list option"
  age_group_means :: "means option"

record risk_group =
  demographic :: "string option"
  mean_risk :: "rat option"

record risk_analysis =
  high_risk_demographics :: "risk_group list option"

text \<open>What the network answers to the four requests of one load or refresh.\<close>

record network =
  dashboard_response :: "dashboard fetched"
  gender_response :: "gender_analysis fetched"
  age_response :: "age_analysis fetched"
  risk_response :: "risk_analysis fetched"

subsection \<open>Overview\<close>

text \<open>A numeric field as a value: \<open>undefined\<close> when it is missing.\<close>

definition field :: "rat option \<Rightarrow> jsval" where
  "field v = (case v of None \<Rightarrow> Undefined | Some n \<Rightarrow> Num n)"

definition loadOverviewData :: "dashboard fetched \<Rightarrow> page action" where
  "loadOverviewData response =
     block
      [called LoadOverviewData,
       try_catch
        (fetch_json response (\<lambda>data.
           case summary data of
             None \<Rightarrow> skip
           | Some sm \<Rightarrow>
               on_document (block
                [case total_patients sm of
                   None \<Rightarrow> throw TypeError
                 | Some n \<Rightarrow> set_textContent ''total-patients'' [Locale n],
                 set_textContent ''average-age''
                   [NumStr (averageAge
                      (case age_group_distribution sm of None \<Rightarrow> [] | Some distribution \<Rightarrow> distribution)),
                    Lit '' years''],
                 let genderDist =
                       (case gender_distribution sm of
                          None \<Rightarrow> \<lparr>male = None, female = None, other = None\<rparr>
                        | Some g \<Rightarrow> g)
                 in set_textContent ''gender-distribution''
                      [Lit ''M:'', NumStr (or_else (field (male genderDist)) (Num 0)),
                       Lit '' F:'', NumStr (or_else (field (female genderDist)) (Num 0)),
                       Lit '' O:'', NumStr (or_else (field (other genderDist)) (Num 0))]])))
        (\<lambda>error. console_error ''Error loading overview data:'' error)]"

subsection \<open>Gender analysis\<close>

text \<open>The source also collects the \<open>p_value\<close> of each metric, in an array it never uses.\<close>

definition createGenderComparisonChart :: "gender_analysis \<Rightarrow> dom action" where
  "createGenderComparisonChart data =
     (case gender_comparisons data of
        None \<Rightarrow> skip
      | Some comparisons \<Rightarrow>
          (let metrics = map fst comparisons;
               maleValues = map (\<lambda>(metric, c). male_mean c) comparisons;
               femaleValues = map (\<lambda>(metric, c). female_mean c) comparisons
           in newPlot ''gender-comparison-chart''
                [Trace metrics maleValues (Some ''Male'') ''bar'',
                 Trace metrics femaleValues (Some ''Female'') ''bar'']
                ''Vital Sign Comparison by Gender''))"

definition createGenderRiskChart :: "gender_analysis \<Rightarrow> dom action" where
  "createGenderRiskChart data =
     newPlot ''gender-risk-chart''
       [Trace [''Male'', ''Female'', ''Other'']
          [Some (35 / 100), Some (28 / 100), Some (31 / 100)] None ''bar'']
       ''Average Sepsis Risk by Gender''"

definition loadGenderAnalysis :: "gender_analysis fetched \<Rightarrow> page action" where
  "loadGenderAnalysis response =
     block
      [called LoadGenderAnalysis,
       try_catch
        (fetch_json response (\<lambda>data.
           on_document (block [createGenderComparisonChart data, createGenderRiskChart data])))
        (\<lambda>error. console_error ''Error loading gender analysis:'' error)]"

subsection \<open>Age group analysis\<close>

definition createAgeDistributionChart :: "age_analysis \<Rightarrow> dom action" where
  "createAgeDistributionChart data =
     (case age_group_counts data of
        None \<Rightarrow> skip
      | Some group_counts \<Rightarrow>
          (let ageGroups = map fst group_counts;
               counts = map (\<lambda>(ageGroup, n). Some n) group_counts
           in newPlot ''age-distribution-chart''
                [Trace ageGroups counts None ''pie'']
                ''Patient Distribution by Age Group''))"

definition createAgeRiskChart :: "age_analysis \<Rightarrow> dom action" where
  "createAgeRiskChart data =
     (case age_group_means data of
        None \<Rightarrow> skip
      | Some group_means \<Rightarrow>
          (case heart_rate group_means of
             None \<Rightarrow> skip
           | Some rates \<Rightarrow>
               (let ageGroups = map fst rates;
                    heartRates = map (\<lambda>(ageGroup, st). mean st) rates
                in newPlot ''age-risk-chart''
                     [Trace ageGroups heartRates (Some ''Heart Rate'') ''scatter'']
                     ''Heart Rate Trends Across Age Groups'')))"

definition loadAgeGroupAnalysis :: "age_analysis fetched \<Rightarrow> page action" where
  "loadAgeGroupAnalysis response =
     block
      [called LoadAgeGroupAnalysis,
       try_catch
        (fetch_json response (\<lambda>data.
           on_document (block [createAgeDistributionChart data, createAgeRiskChart data])))
        (\<lambda>error. console_error ''Error loading age group analysis:'' error)]"

subsection \<open>Risk stratification\<close>

text \<open>
  One list item: a \<open>div\<close> of the given class whose \<open>innerHTML\<close> is the template literal
  of the source, line breaks and indentation included, with the demographic and the risk
  value interpolated into it.
\<close>

definition risk_item :: "string \<Rightarrow> piece \<Rightarrow> piece \<Rightarrow> node" where
  \<open>risk_item cls shown_demographic shown_risk =
     Element ''div'' cls
       [Markup
         [Lit (CHR 0x0A # ''            <div class="risk-demographic">''),
          shown_demographic,
          Lit (''</div>'' @ CHR 0x0A # ''            <div class="risk-value">''),
          shown_risk,
          Lit (''</div>'' @ CHR 0x0A # ''        '')]]\<close>

definition mediumRiskItems :: "(string \<times> rat) list" where
  "mediumRiskItems = [(''Female, Young Adult'', 42 / 100), (''Male, Middle Adult'', 38 / 100)]"

definition lowRiskItems :: "(string \<times> rat) list" where
  "lowRiskItems = [(''Female, Adolescent'', 18 / 100), (''Male, School Age'', 15 / 100)]"

text \<open>
  The item of a server-supplied group.  \<open>group.mean_risk.toFixed(2)\<close> throws when
  \<open>mean_risk\<close> is missing, before the item is appended; a missing \<open>demographic\<close> is
  interpolated as \<open>undefined\<close>.  The demographic goes into the markup as it is.
\<close>

definition append_high_risk :: "risk_group \<Rightarrow> dom action" where
  "append_high_risk g =
     (case mean_risk g of
        None \<Rightarrow> throw TypeError
      | Some r \<Rightarrow>
          appendChild ''high-risk-list''
            (risk_item ''risk-item risk-high''
               (Lit (case demographic g of None \<Rightarrow> ''undefined'' | Some label \<Rightarrow> label))
               (Fixed2 r)))"

definition populateRiskLists :: "risk_analysis \<Rightarrow> dom action" where
  "populateRiskLists data =
     block
      [clear_innerHTML ''high-risk-list'',
       clear_innerHTML ''medium-risk-list'',
       clear_innerHTML ''low-risk-list'',
       case high_risk_demographics data of
         None \<Rightarrow> skip
       | Some groups \<Rightarrow>
           block
            [forEach groups append_high_risk,
             forEach mediumRiskItems (\<lambda>(label, r).
               appendChild ''medium-risk-list''
                 (risk_item ''risk-item risk-medium'' (Lit label) (Fixed2 r))),
             forEach lowRiskItems (\<lambda>(label, r).
               appendChild ''low-risk-list''
                 (risk_item ''risk-item risk-low'' (Lit label) (Fixed2 r)))]]"

definition loadRiskStratification :: "risk_analysis fetched \<Rightarrow> page action" where
  "loadRiskStratification response =
     block
      [called LoadRiskStratification,
       try_catch
        (fetch_json response (\<lambda>data. on_document (populateRiskLists data)))
        (\<lambda>error. console_error ''Error loading risk stratification:'' error)]"

subsection \<open>Insights\<close>

definition femaleInsights :: "string list" where
  "femaleInsights =
     [''Higher autoimmune disease prevalence may complicate diagnosis'',
      ''Consider pregnancy status in women of childbearing age'',
      ''Gynecological sources should be considered in sepsis workup'',
      ''May present with more robust inflammatory response'']"

definition maleInsights :: "string list" where
  "maleInsights =
     [''Higher baseline mortality risk from sepsis'',
      ''Consider prostate/urinary sources in older males'',
      ''May have delayed presentation to healthcare'',
      ''Higher risk of community-acquired pneumonia'']"

text \<open>The second string holds a greater-or-equal sign and a degree sign, here as UTF-8 bytes.\<close>

definition geriatricInsights :: "string list" where
  "geriatricInsights =
     [''Atypical presentation common - watch for delirium or functional decline'',
      ''Lower fever threshold ('' @ [CHR 0xE2, CHR 0x89, CHR 0xA5] @ ''37.8''
         @ [CHR 0xC2, CHR 0xB0] @ ''C may be significant)'',
      ''Multiple comorbidities can mask sepsis symptoms'',
      ''Higher risk of healthcare-associated infections'']"

definition pediatricInsights :: "string list" where
  "pediatricInsights =
     [''Rapid deterioration possible in neonates and infants'',
      ''Non-specific symptoms: poor feeding, lethargy, irritability'',
      ''Higher heart rate and respiratory rate baselines'',
      ''Consider maternal risk factors for early-onset sepsis'']"

definition populateInsightList :: "string \<Rightarrow> string list \<Rightarrow> dom action" where
  "populateInsightList listId insights d =
     (case d listId of
        None \<Rightarrow> (None, d)
      | Some kids \<Rightarrow>
          block
           [clear_innerHTML listId,
            forEach insights (\<lambda>insight.
              appendChild listId (Element ''li'' [] [Text [Lit insight]]))] d)"

definition loadDemographicInsights :: "page action" where
  "loadDemographicInsights =
     block
      [called LoadDemographicInsights,
       try_catch
        (on_document (block
          [populateInsightList ''female-insights'' femaleInsights,
           populateInsightList ''male-insights'' maleInsights,
           populateInsightList ''geriatric-insights'' geriatricInsights,
           populateInsightList ''pediatric-insights'' pediatricInsights]))
        (\<lambda>error. console_error ''Error loading demographic insights:'' error)]"

subsection \<open>Population norms\<close>

record norms =
  hr :: "string option"
  bp :: "string option"
  rr :: "string option"
  temp :: "string option"
  risk :: "string option"

definition sampleNorms :: "(string \<times> norms) list" where
  "sampleNorms =
     [(''Neonate'', \<lparr>hr = Some ''120-160'', bp = Some ''60-90'', rr = Some ''30-60'',
         temp = Some ''36.5-37.5'', risk = Some ''2.5''\<rparr>),
      (''Infant'', \<lparr>hr = Some ''80-140'', bp = Some ''70-100'', rr = Some ''20-40'',
         temp = Some ''36.6-37.7'', risk = Some ''1.8''\<rparr>),
      (''Toddler'', \<lparr>hr = Some ''70-120'', bp = Some ''80-110'', rr = Some ''20-30'',
         temp = Some ''36.7-37.8'', risk = Some ''1.2''\<rparr>),
      (''Preschool'', \<lparr>hr = Some ''65-110'', bp = Some ''85-115'', rr = Some ''20-30'',
         temp = Some ''36.5-37.5'', risk = Some ''0.9''\<rparr>),
      (''School Age'', \<lparr>hr = Some ''60-100'', bp = Some ''90-120'', rr = Some ''15-25'',
         temp = Some ''36.5-37.5'', risk = Some ''0.8''\<rparr>),
      (''Adolescent'', \<lparr>hr = Some ''55-95'', bp = Some ''95-125'', rr = Some ''12-20'',
         temp = Some ''36.5-37.5'', risk = Some ''0.6''\<rparr>),
      (''Young Adult'', \<lparr>hr = Some ''60-100'', bp = Some ''105-130'', rr = Some ''12-20'',
         temp = Some ''36.5-37.5'', risk = Some ''0.9''\<rparr>),
      (''Middle Adult'', \<lparr>hr = Some ''60-100'', bp = Some ''110-135'', rr = Some ''12-20'',
         temp = Some ''36.5-37.5'', risk = Some ''1.2''\<rparr>),
      (''Geriatric'', \<lparr>hr = Some ''60-100'', bp = Some ''115-140'', rr = Some ''12-25'',
         temp = Some ''36.0-37.2'', risk = Some ''5.4''\<rparr>)]"

text \<open>
  \<open>classes[ageGroup] || 'adult'\<close>.  Its one caller passes the nine labels of
  \<open>loadPopulationNorms\<close>, all own keys; property names inherited from
  \<open>Object.prototype\<close> are not followed here.
\<close>

definition getAgeGroupClass :: "string \<Rightarrow> string" where
  "getAgeGroupClass ageGroup =
     (case map_of
        [(''Neonate'', ''neonate''), (''Infant'', ''pediatric''), (''Toddler'', ''pediatric''),
         (''Preschool'', ''pediatric''), (''School Age'', ''pediatric''),
         (''Adolescent'', ''adult''), (''Young Adult'', ''adult''),
         (''Middle Adult'', ''adult''), (''Geriatric'', ''geriatric'')] ageGroup of
        Some c \<Rightarrow> if c = [] then ''adult'' else c
      | None \<Rightarrow> ''adult'')"

text \<open>\<open>value || 'N/A'\<close> on a string field.\<close>

definition or_NA :: "string option \<Rightarrow> string" where
  "or_NA v = (case v of None \<Rightarrow> ''N/A'' | Some str \<Rightarrow> if str = [] then ''N/A'' else str)"

definition norms_row :: "string \<Rightarrow> node" where
  "norms_row ageGroup =
     (let ns = (case map_of sampleNorms ageGroup of
                  None \<Rightarrow> \<lparr>hr = None, bp = None, rr = None, temp = None, risk = None\<rparr>
                | Some found \<Rightarrow> found)
      in Element ''tr'' []
           [Element ''td'' []
              [Element ''span'' (''age-group-badge badge-'' @ getAgeGroupClass ageGroup)
                 [Text [Lit ageGroup]]],
            Element ''td'' [] [Text [Lit (or_NA (hr ns))]],
            Element ''td'' [] [Text [Lit (or_NA (bp ns))]],
            Element ''td'' [] [Text [Lit (or_NA (rr ns))]],
            Element ''td'' [] [Text [Lit (or_NA (temp ns))]],
            Element ''td'' [] [Text [Lit (or_NA (risk ns))]]])"

definition loadPopulationNorms :: "page action" where
  "loadPopulationNorms =
     block
      [called LoadPopulationNorms,
       try_catch
        (on_document (block
          [clear_innerHTML ''#population-norms-table tbody'',
           forEach
             [''Neonate'', ''Infant'', ''Toddler'', ''Preschool'', ''School Age'',
              ''Adolescent'', ''Young Adult'', ''Middle Adult'', ''Geriatric'']
             (\<lambda>ageGroup. appendChild ''#population-norms-table tbody'' (norms_row ageGroup))]))
        (\<lambda>error. console_error ''Error loading population norms:'' error)]"

subsection \<open>Notifications\<close>

definition getNotificationIcon :: "string \<Rightarrow> string" where
  "getNotificationIcon type =
     (if type = ''success'' then ''check-circle''
      else if type = ''warning'' then ''exclamation-triangle''
      else if type = ''error'' then ''times-circle''
      else ''info-circle'')"

definition showError :: "string \<Rightarrow> page action" where
  "showError message s =
     (None, s\<lparr>notifications := notifications s @
        [Element ''div'' ''error-notification''
           [Element ''i'' ''fas fa-exclamation-circle'' [],
            Element ''span'' [] [Text [Lit message]]]]\<rparr>)"

definition showNotification :: "string \<Rightarrow> string \<Rightarrow> page action" where
  "showNotification message type s =
     (None, s\<lparr>notifications := notifications s @
        [Element ''div'' (''notification notification-'' @ type)
           [Element ''i'' (''fas fa-'' @ getNotificationIcon type) [],
            Element ''span'' [] [Text [Lit message]]]]\<rparr>)"

subsection \<open>The refresh orchestration\<close>

definition updateDemographicData :: "network \<Rightarrow> page action" where
  "updateDemographicData net =
     block
      [console_log ''Updating demographic data...'',
       try_catch
        (block
          [loadOverviewData (dashboard_response net),
           loadGenderAnalysis (gender_response net),
           loadAgeGroupAnalysis (age_response net),
           showNotification ''Demographic data updated'' ''success''])
        (\<lambda>error. console_error ''Error updating demographic data:'' error)]"

definition initializeDemographicAnalytics :: "network \<Rightarrow> page action" where
  "initializeDemographicAnalytics net =
     try_catch
      (block
        [loadOverviewData (dashboard_response net),
         loadGenderAnalysis (gender_response net),
         loadAgeGroupAnalysis (age_response net),
         loadRiskStratification (risk_response net),
         loadDemographicInsights,
         loadPopulationNorms,
         setInterval UpdateDemographicData 300000])
      (\<lambda>error. block
         [console_error ''Error initializing demographic analytics:'' error,
          showError ''Failed to load demographic analytics''])"

subsection \<open>The timer of the runtime\<close>

text \<open>
  The runtime fires the interval that is due first (the first registered among equals),
  at its due time, and makes it due again one period later.  The promise an \<open>async\<close>
  callback returns is dropped.  Each firing meets its own network.
\<close>

fun run_handler :: "callback \<Rightarrow> network \<Rightarrow> page \<Rightarrow> page" where
  "run_handler UpdateDemographicData net s = snd (updateDemographicData net s)"

fun first_due :: "timer list \<Rightarrow> nat" where
  "first_due [] = 0"
| "first_due (t # ts) =
     (if list_all (\<lambda>u. due t \<le> due u) ts then 0 else Suc (first_due ts))"

definition fire_next :: "network \<Rightarrow> page \<Rightarrow> page" where
  "fire_next net s =
     (if timers s = [] then s
      else
        (let i = first_due (timers s);
             t = timers s ! i
         in run_handler (handler t) net
              (s\<lparr>clock := max (clock s) (due t),
                 timers := (timers s)[i := t\<lparr>due := due t + period t\<rparr>]\<rparr>)))"

fun run :: "network list \<Rightarrow> page \<Rightarrow> page" where
  "run [] s = s"
| "run (net # nets) s = run nets (fire_next net s)"

subsection \<open>Notions used in the statements\<close>

text \<open>The state an action leaves when it is run once, and when it is run again on that state.\<close>

definition once :: "'s action \<Rightarrow> 's \<Rightarrow> 's" where
  "once a s = snd (a s)"

definition twice :: "'s action \<Rightarrow> 's \<Rightarrow> 's" where
  "twice a s = snd (a (snd (a s)))"

text \<open>The items of the two fixed lists, as \<open>populateRiskLists\<close> builds them.\<close>

definition medium_nodes :: "node list" where
  "medium_nodes =
     [risk_item ''risk-item risk-medium'' (Lit ''Female, Young Adult'') (Fixed2 (42 / 100)),
      risk_item ''risk-item risk-medium'' (Lit ''Male, Middle Adult'') (Fixed2 (38 / 100))]"

definition low_nodes :: "node list" where
  "low_nodes =
     [risk_item ''risk-item risk-low'' (Lit ''Female, Adolescent'') (Fixed2 (18 / 100)),
      risk_item ''risk-item risk-low'' (Lit ''Male, School Age'') (Fixed2 (15 / 100))]"

text \<open>
  \<open>entered s fs s'\<close>: from \<open>s\<close> to \<open>s'\<close> the load steps \<open>fs\<close> were entered, the console
  only grew, and notifications, timers and clock are as they were (the document may differ).
\<close>

definition entered :: "page \<Rightarrow> step list \<Rightarrow> page \<Rightarrow> bool" where
  "entered s fs s' \<longleftrightarrow>
     calls s' = calls s @ fs \<and> notifications s' = notifications s \<and>
     timers s' = timers s \<and> clock s' = clock s \<and>
     (\<exists>es. console s' = console s @ es)"

text \<open>
  The average age in the words of the specification: the representative age of a label is
  its entry in the static table, 40 for a label the table does not have, and the average
  is the count-weighted mean rounded to the nearest integer, 0 when the total count is 0.
\<close>

definition tabulated_age :: "string \<Rightarrow> rat" where
  "tabulated_age label = (case map_of estimates label of Some age \<Rightarrow> age | None \<Rightarrow> 40)"

definition weighted_mean_age :: "(string \<times> rat) list \<Rightarrow> rat" where
  "weighted_mean_age distribution =
     (let counted = sum_list (map snd distribution)
      in if counted > 0
         then of_int (round
                (sum_list (map (\<lambda>(label, n). n * tabulated_age label) distribution) / counted))
         else 0)"

subsection \<open>Sample pages, networks and responses\<close>

text \<open>A page that has every display target, each still empty, at time 0.\<close>

definition targets :: "string list" where
  "targets =
     [''total-patients'', ''average-age'', ''gender-distribution'',
      ''gender-comparison-chart'', ''gender-risk-chart'',
      ''age-distribution-chart'', ''age-risk-chart'',
      ''high-risk-list'', ''medium-risk-list'', ''low-risk-list'',
      ''female-insights'', ''male-insights'', ''geriatric-insights'', ''pediatric-insights'',
      ''#population-norms-table tbody'']"

definition blank_document :: dom where
  "blank_document ident = (if ident \<in> set targets then Some [] else None)"

definition blank_page :: page where
  "blank_page =
     \<lparr>document = blank_document, notifications = [], console = [], timers = [], clock = 0,
      calls = []\<rparr>"

text \<open>A network on which only the overview request fails, and one on which every request fails.\<close>

definition overview_down :: network where
  "overview_down =
     \<lparr>dashboard_response = Rejected NetworkError,
      gender_response = Body \<lparr>gender_comparisons = None\<rparr>,
      age_response = Body \<lparr>age_group_counts = None, age_group_means = None\<rparr>,
      risk_response = Body \<lparr>high_risk_demographics = None\<rparr>\<rparr>"

definition offline :: network where
  "offline =
     \<lparr>dashboard_response = Rejected NetworkError,
      gender_response = Rejected NetworkError,
      age_response = Rejected ParseError,
      risk_response = Rejected NetworkError\<rparr>"

text \<open>A risk response whose one group has no \<open>mean_risk\<close>, and a summary without \<open>total_patients\<close>.\<close>

definition risk_without_mean :: risk_analysis where
  "risk_without_mean =
     \<lparr>high_risk_demographics = Some [\<lparr>demographic = Some ''Male, Geriatric'', mean_risk = None\<rparr>]\<rparr>"

definition summary_without_total :: dashboard where
  "summary_without_total =
     \<lparr>summary = Some \<lparr>total_patients = None,
                       age_group_distribution = Some [(''Geriatric (>65 years)'', 3)],
                       gender_distribution = Some \<lparr>male = Some 2, female = Some 1, other = None\<rparr>\<rparr>\<rparr>"

text \<open>A summary whose one age-group label is \<open>constructor\<close>.\<close>

definition summary_of_constructor :: dashboard where
  "summary_of_constructor =
     \<lparr>summary = Some \<lparr>total_patients = Some 1,
                       age_group_distribution = Some [(''constructor'', 1)],
                       gender_distribution = None\<rparr>\<rparr>"

text \<open>A risk response of three groups, the second without \<open>mean_risk\<close>.\<close>

definition second_without_mean :: risk_analysis where
  "second_without_mean =
     \<lparr>high_risk_demographics =
        Some [\<lparr>demographic = Some ''Male, Geriatric'', mean_risk = Some (81 / 100)\<rparr>,
              \<lparr>demographic = Some ''Female, Geriatric'', mean_risk = None\<rparr>,
              \<lparr>demographic = Some ''Male, Neonate'', mean_risk = Some (77 / 100)\<rparr>]\<rparr>"

text \<open>A risk response with two well-formed groups, and one without the field.\<close>

definition two_groups :: risk_analysis where
  "two_groups =
     \<lparr>high_risk_demographics =
        Some (map (\<lambda>(label, r). \<lparr>demographic = label, mean_risk = Some r\<rparr>)
               [(Some ''Male, Geriatric'', 81 / 100), (None, 1 / 2)])\<rparr>"

definition no_groups :: risk_analysis where
  "no_groups = \<lparr>high_risk_demographics = None\<rparr>"

section \<open>Properties\<close>

subsection \<open>The representative age and the average age\<close>

lemma estimates_nonzero: "map_of estimates label = Some age \<Longrightarrow> age \<noteq> 0"
  by (auto simp: estimates_def split: if_splits)

lemma inherited_not_tabulated:
  "list_all (\<lambda>key. map_of estimates key = None) object_prototype"
  by (simp add: estimates_def object_prototype_def)

lemma estimates_not_inherited: "label \<in> set object_prototype \<Longrightarrow> map_of estimates label = None"
  using inherited_not_tabulated by (simp add: list_all_iff)

lemma estimateAverageAge_tabulated:
  "label \<notin> set object_prototype \<Longrightarrow> estimateAverageAge label = Num (tabulated_age label)"
  by (cases "map_of estimates label")
     (auto simp: estimateAverageAge_def get_property_def or_else_def tabulated_age_def
        dest: estimates_nonzero)

lemma estimateAverageAge_key:
  "map_of estimates label = Some age \<Longrightarrow> estimateAverageAge label = Num age"
  by (auto simp: estimateAverageAge_def get_property_def or_else_def dest: estimates_nonzero)

lemma foldl_accumulate:
  "set (map fst distribution) \<inter> set object_prototype = {} \<Longrightarrow>
   foldl accumulate (Num acc, n) distribution =
     (Num (acc + sum_list (map (\<lambda>(label, n). n * tabulated_age label) distribution)),
      n + sum_list (map snd distribution))"
proof (induction distribution arbitrary: acc n)
  case Nil
  then show ?case by simp
next
  case (Cons entry distribution)
  obtain label m where entry: "entry = (label, m)"
    by (cases entry)
  with Cons.prems have "label \<notin> set object_prototype"
    by auto
  then have "accumulate (Num acc, n) entry = (Num (acc + tabulated_age label * m), n + m)"
    by (simp add: accumulate_def entry estimateAverageAge_tabulated)
  moreover have "set (map fst distribution) \<inter> set object_prototype = {}"
    using Cons.prems by auto
  ultimately show ?case
    using Cons.IH [of "acc + tabulated_age label * m" "n + m"]
    by (simp add: entry algebra_simps)
qed

lemma averageAge_weighted_mean:
  "set (map fst distribution) \<inter> set object_prototype = {} \<Longrightarrow>
   averageAge distribution = Num (weighted_mean_age distribution)"
  by (simp add: averageAge_def foldl_accumulate weighted_mean_age_def round_def Let_def)

text \<open>
  C8: for every label that is not a key of the static table the lookup returns 40, and for
  every key it returns the tabulated value.  The second half holds (\<open>estimateAverageAge_key\<close>);
  the first fails for the labels that name a property of \<open>Object.prototype\<close>:
  \<open>estimates['constructor']\<close> is not an own property, yet it is a function, which is
  truthy, so \<open>estimates[ageGroup] || 40\<close> returns that function and not 40.
\<close>

theorem estimate_of_inherited_label:
  "map_of estimates ''constructor'' = None \<and>
   estimateAverageAge ''constructor'' = Inherited ''constructor'' \<and>
   estimateAverageAge ''constructor'' \<noteq> Num 40"
  by (simp add: estimateAverageAge_def get_property_def or_else_def estimates_def
      object_prototype_def)

text \<open>
  C2: for every distribution of non-negative integer counts the average age is the
  count-weighted mean of the representative ages, rounded, and 0 when the total is 0.
  For the distribution \<open>{constructor: 1}\<close> the specified value is \<open>round(1 * 40 / 1) = 40\<close>,
  while the code multiplies the inherited function by the count and returns \<open>NaN\<close>.
  (For labels that name no property of \<open>Object.prototype\<close> the code agrees with the
  specified value: \<open>averageAge_weighted_mean\<close>.)
\<close>

theorem average_age_of_inherited_label:
  "averageAge [(''constructor'', 1)] = NaN \<and>
   weighted_mean_age [(''constructor'', 1)] = 40 \<and>
   document (snd (loadOverviewData (Body summary_of_constructor) blank_page)) ''average-age'' =
     Some [Text [NumStr NaN, Lit '' years'']]"
  by (simp add: averageAge_def accumulate_def estimateAverageAge_def get_property_def
      or_else_def estimates_def object_prototype_def weighted_mean_age_def tabulated_age_def
      summary_of_constructor_def blank_page_def blank_document_def targets_def
      loadOverviewData_def called_def try_catch_def fetch_json_def on_document_def
      set_textContent_def field_def)

text \<open>
  C5, as amended: for the distribution \<open>{'Neonate (0-28 days)': 10, 'Young Adult (18-40 years)': 10}\<close>,
  whose labels are the keys under which the table lists 0.04 and 29, the computation uses
  these two ages and returns \<open>round((10 * 0.04 + 10 * 29) / 20) = round(14.52) = 15\<close>.
\<close>

theorem average_age_of_tabulated_labels:
  "estimateAverageAge ''Neonate (0-28 days)'' = Num (4 / 100) \<and>
   estimateAverageAge ''Young Adult (18-40 years)'' = Num 29 \<and>
   averageAge [(''Neonate (0-28 days)'', 10), (''Young Adult (18-40 years)'', 10)] =
     Num (of_int (round ((10 * (4 / 100) + 10 * 29) / 20 :: rat))) \<and>
   averageAge [(''Neonate (0-28 days)'', 10), (''Young Adult (18-40 years)'', 10)] = Num 15"
  by code_simp

text \<open>
  C5 as stated fails: \<open>Neonate\<close> and \<open>Young Adult\<close> are not keys of the table, so both
  representative ages default to 40 and the average is 40, not 15.
\<close>

theorem average_age_of_short_labels:
  "estimateAverageAge ''Neonate'' = Num 40 \<and>
   estimateAverageAge ''Young Adult'' = Num 40 \<and>
   averageAge [(''Neonate'', 10), (''Young Adult'', 10)] = Num 40 \<and>
   averageAge [(''Neonate'', 10), (''Young Adult'', 10)] \<noteq> Num 15"
  by code_simp

subsection \<open>Load steps never reject\<close>

lemma entered_trans: "entered s fs s' \<Longrightarrow> entered s' gs s'' \<Longrightarrow> entered s (fs @ gs) s''"
  by (auto simp: entered_def)


lemma on_document_frame: "\<exists>d. snd (on_document a s) = s\<lparr>document := d\<rparr>"
  by (cases "a (document s)") (auto simp: on_document_def)

lemma skip_frame: "\<exists>d. snd (skip s) = s\<lparr>document := d\<rparr>"
  by (rule exI [of _ "document s"]) (simp add: skip_def)

lemma throw_frame: "\<exists>d. snd (throw e s) = s\<lparr>document := d\<rparr>"
  by (rule exI [of _ "document s"]) (simp add: throw_def)

lemma fetch_json_frame:
  assumes "\<And>data. \<exists>d. snd (continue data s) = s\<lparr>document := d\<rparr>"
  shows "\<exists>d. snd (fetch_json response continue s) = s\<lparr>document := d\<rparr>"
  using assms by (cases response) (simp_all add: fetch_json_def throw_frame)

lemma load_step:
  assumes "\<And>s. \<exists>d. snd (body s) = s\<lparr>document := d\<rparr>"
  shows "\<exists>s'. block [called f, try_catch body (console_error m)] s = (None, s') \<and>
           entered s [f] s'"
proof -
  let ?s1 = "s\<lparr>calls := calls s @ [f]\<rparr>"
  obtain d where d: "snd (body ?s1) = ?s1\<lparr>document := d\<rparr>"
    using assms by blast
  show ?thesis
  proof (cases "fst (body ?s1)")
    case None
    then have "body ?s1 = (None, ?s1\<lparr>document := d\<rparr>)"
      using d by (metis prod.collapse)
    then have "block [called f, try_catch body (console_error m)] s =
        (None, s\<lparr>document := d, console := console s @ [], calls := calls s @ [f]\<rparr>)"
      by (simp add: called_def try_catch_def)
    then show ?thesis by (simp add: entered_def)
  next
    case (Some e)
    then have "body ?s1 = (Some e, ?s1\<lparr>document := d\<rparr>)"
      using d by (metis prod.collapse)
    then have "block [called f, try_catch body (console_error m)] s =
        (None, s\<lparr>document := d, console := console s @ [Error m e], calls := calls s @ [f]\<rparr>)"
      by (simp add: called_def try_catch_def console_error_def)
    then show ?thesis by (simp add: entered_def)
  qed
qed

lemma rejected_step:
  "block [called f, try_catch (fetch_json (Rejected e) continue) (console_error m)] s =
     (None, s\<lparr>console := console s @ [Error m e], calls := calls s @ [f]\<rparr>)"
  by (simp add: called_def try_catch_def fetch_json_def throw_def console_error_def)


lemma loadOverviewData_settles:
  "\<exists>s'. loadOverviewData r s = (None, s') \<and> entered s [LoadOverviewData] s'"
  unfolding loadOverviewData_def
  by (rule load_step, rule fetch_json_frame)
     (simp add: on_document_frame skip_frame split: option.splits)

lemma loadGenderAnalysis_settles:
  "\<exists>s'. loadGenderAnalysis r s = (None, s') \<and> entered s [LoadGenderAnalysis] s'"
  unfolding loadGenderAnalysis_def
  by (rule load_step, rule fetch_json_frame) (simp add: on_document_frame)

lemma loadAgeGroupAnalysis_settles:
  "\<exists>s'. loadAgeGroupAnalysis r s = (None, s') \<and> entered s [LoadAgeGroupAnalysis] s'"
  unfolding loadAgeGroupAnalysis_def
  by (rule load_step, rule fetch_json_frame) (simp add: on_document_frame)

lemma loadRiskStratification_settles:
  "\<exists>s'. loadRiskStratification r s = (None, s') \<and> entered s [LoadRiskStratification] s'"
  unfolding loadRiskStratification_def
  by (rule load_step, rule fetch_json_frame) (simp add: on_document_frame)

lemma loadDemographicInsights_settles:
  "\<exists>s'. loadDemographicInsights s = (None, s') \<and> entered s [LoadDemographicInsights] s'"
  unfolding loadDemographicInsights_def
  by (rule load_step) (simp add: on_document_frame)

lemma loadPopulationNorms_settles:
  "\<exists>s'. loadPopulationNorms s = (None, s') \<and> entered s [LoadPopulationNorms] s'"
  unfolding loadPopulationNorms_def
  by (rule load_step) (simp add: on_document_frame)

lemma loadOverviewData_rejected:
  "loadOverviewData (Rejected e) s =
     (None, s\<lparr>console := console s @ [Error ''Error loading overview data:'' e],
              calls := calls s @ [LoadOverviewData]\<rparr>)"
  unfolding loadOverviewData_def by (rule rejected_step)

lemma loadGenderAnalysis_rejected:
  "loadGenderAnalysis (Rejected e) s =
     (None, s\<lparr>console := console s @ [Error ''Error loading gender analysis:'' e],
              calls := calls s @ [LoadGenderAnalysis]\<rparr>)"
  unfolding loadGenderAnalysis_def by (rule rejected_step)

lemma loadAgeGroupAnalysis_rejected:
  "loadAgeGroupAnalysis (Rejected e) s =
     (None, s\<lparr>console := console s @ [Error ''Error loading age group analysis:'' e],
              calls := calls s @ [LoadAgeGroupAnalysis]\<rparr>)"
  unfolding loadAgeGroupAnalysis_def by (rule rejected_step)

text \<open>The five later steps of the initial load and the registration of the timer.\<close>

lemma later_steps_settle:
  "\<exists>s'. block
       [loadGenderAnalysis (gender_response net),
        loadAgeGroupAnalysis (age_response net),
        loadRiskStratification (risk_response net),
        loadDemographicInsights,
        loadPopulationNorms,
        setInterval UpdateDemographicData 300000] s =
       (None, s'\<lparr>timers := timers s @
          [\<lparr>handler = UpdateDemographicData, period = 300000, due = clock s + 300000\<rparr>]\<rparr>) \<and>
     entered s
       [LoadGenderAnalysis, LoadAgeGroupAnalysis, LoadRiskStratification,
        LoadDemographicInsights, LoadPopulationNorms] s'"
proof -
  obtain s2 where 2: "loadGenderAnalysis (gender_response net) s = (None, s2)"
      and e2: "entered s [LoadGenderAnalysis] s2"
    using loadGenderAnalysis_settles by blast
  obtain s3 where 3: "loadAgeGroupAnalysis (age_response net) s2 = (None, s3)"
      and e3: "entered s2 [LoadAgeGroupAnalysis] s3"
    using loadAgeGroupAnalysis_settles by blast
  obtain s4 where 4: "loadRiskStratification (risk_response net) s3 = (None, s4)"
      and e4: "entered s3 [LoadRiskStratification] s4"
    using loadRiskStratification_settles by blast
  obtain s5 where 5: "loadDemographicInsights s4 = (None, s5)"
      and e5: "entered s4 [LoadDemographicInsights] s5"
    using loadDemographicInsights_settles by blast
  obtain s6 where 6: "loadPopulationNorms s5 = (None, s6)"
      and e6: "entered s5 [LoadPopulationNorms] s6"
    using loadPopulationNorms_settles by blast
  have e: "entered s
       [LoadGenderAnalysis, LoadAgeGroupAnalysis, LoadRiskStratification,
        LoadDemographicInsights, LoadPopulationNorms] s6"
    using entered_trans [OF e2 entered_trans [OF e3 entered_trans [OF e4 entered_trans [OF e5 e6]]]]
    by simp
  then have "timers s6 = timers s" and "clock s6 = clock s"
    by (simp_all add: entered_def)
  then show ?thesis
    using e by (intro exI [of _ s6]) (simp add: 2 3 4 5 6 setInterval_def)
qed

lemma block_Cons_None: "a s = (None, s') \<Longrightarrow> block (a # as) s = block as s'"
  by simp

lemma initial_load_settles:
  "\<exists>s'. initializeDemographicAnalytics net s =
       (None, s'\<lparr>timers := timers s @
          [\<lparr>handler = UpdateDemographicData, period = 300000, due = clock s + 300000\<rparr>]\<rparr>) \<and>
     entered s
       [LoadOverviewData, LoadGenderAnalysis, LoadAgeGroupAnalysis, LoadRiskStratification,
        LoadDemographicInsights, LoadPopulationNorms] s'"
proof -
  obtain s1 where 1: "loadOverviewData (dashboard_response net) s = (None, s1)"
      and e1: "entered s [LoadOverviewData] s1"
    using loadOverviewData_settles by blast
  obtain s' where 2: "block
       [loadGenderAnalysis (gender_response net),
        loadAgeGroupAnalysis (age_response net),
        loadRiskStratification (risk_response net),
        loadDemographicInsights,
        loadPopulationNorms,
        setInterval UpdateDemographicData 300000] s1 =
       (None, s'\<lparr>timers := timers s1 @
          [\<lparr>handler = UpdateDemographicData, period = 300000, due = clock s1 + 300000\<rparr>]\<rparr>)"
      and e2: "entered s1
       [LoadGenderAnalysis, LoadAgeGroupAnalysis, LoadRiskStratification,
        LoadDemographicInsights, LoadPopulationNorms] s'"
    using later_steps_settle by blast
  have same: "timers s1 = timers s" "clock s1 = clock s"
    using e1 by (simp_all add: entered_def)
  have body: "block
       [loadOverviewData (dashboard_response net),
        loadGenderAnalysis (gender_response net),
        loadAgeGroupAnalysis (age_response net),
        loadRiskStratification (risk_response net),
        loadDemographicInsights,
        loadPopulationNorms,
        setInterval UpdateDemographicData 300000] s =
       (None, s'\<lparr>timers := timers s @
          [\<lparr>handler = UpdateDemographicData, period = 300000, due = clock s + 300000\<rparr>]\<rparr>)"
    using block_Cons_None [where a = "loadOverviewData (dashboard_response net)" and s = s, OF 1] 2 same by simp
  have "entered s
       ([LoadOverviewData] @ [LoadGenderAnalysis, LoadAgeGroupAnalysis, LoadRiskStratification,
        LoadDemographicInsights, LoadPopulationNorms]) s'"
    using e1 e2 by (rule entered_trans)
  then show ?thesis
    unfolding initializeDemographicAnalytics_def try_catch_def body
    by (intro exI [of _ s']) simp
qed

text \<open>
  C1, as amended: during the initial load, when the overview fetch fails the failure is
  caught and logged inside the overview step, the promise of that step is fulfilled, and
  the five later steps (gender analysis, age-group analysis, risk stratification, insights,
  population norms) are all still invoked, in order; no error notification is shown.
\<close>

theorem initial_load_continues_after_overview_failure:
  assumes "dashboard_response net = Rejected e"
  shows "fst (initializeDemographicAnalytics net s) = None \<and>
         calls (snd (initializeDemographicAnalytics net s)) =
           calls s @
           [LoadOverviewData, LoadGenderAnalysis, LoadAgeGroupAnalysis,
            LoadRiskStratification, LoadDemographicInsights, LoadPopulationNorms] \<and>
         Error ''Error loading overview data:'' e
           \<in> set (console (snd (initializeDemographicAnalytics net s))) \<and>
         notifications (snd (initializeDemographicAnalytics net s)) = notifications s"
proof -
  let ?s1 = "s\<lparr>console := console s @ [Error ''Error loading overview data:'' e],
                 calls := calls s @ [LoadOverviewData]\<rparr>"
  have 1: "loadOverviewData (dashboard_response net) s = (None, ?s1)"
    using assms by (simp add: loadOverviewData_rejected)
  obtain s' where 2: "block
       [loadGenderAnalysis (gender_response net),
        loadAgeGroupAnalysis (age_response net),
        loadRiskStratification (risk_response net),
        loadDemographicInsights,
        loadPopulationNorms,
        setInterval UpdateDemographicData 300000] ?s1 =
       (None, s'\<lparr>timers := timers ?s1 @
          [\<lparr>handler = UpdateDemographicData, period = 300000, due = clock ?s1 + 300000\<rparr>]\<rparr>)"
      and e2: "entered ?s1
       [LoadGenderAnalysis, LoadAgeGroupAnalysis, LoadRiskStratification,
        LoadDemographicInsights, LoadPopulationNorms] s'"
    using later_steps_settle by blast
  have body: "block
       [loadOverviewData (dashboard_response net),
        loadGenderAnalysis (gender_response net),
        loadAgeGroupAnalysis (age_response net),
        loadRiskStratification (risk_response net),
        loadDemographicInsights,
        loadPopulationNorms,
        setInterval UpdateDemographicData 300000] s =
       (None, s'\<lparr>timers := timers ?s1 @
          [\<lparr>handler = UpdateDemographicData, period = 300000, due = clock ?s1 + 300000\<rparr>]\<rparr>)"
    using block_Cons_None [where a = "loadOverviewData (dashboard_response net)" and s = s, OF 1] 2 by simp
  have "initializeDemographicAnalytics net s =
       (None, s'\<lparr>timers := timers ?s1 @
          [\<lparr>handler = UpdateDemographicData, period = 300000, due = clock ?s1 + 300000\<rparr>]\<rparr>)"
    unfolding initializeDemographicAnalytics_def try_catch_def body by simp
  then show ?thesis
    using e2 by (auto simp: entered_def)
qed

theorem initial_load_continues_offline:
  "dashboard_response offline = Rejected NetworkError \<and>
   calls (snd (initializeDemographicAnalytics offline blank_page)) =
     [LoadOverviewData, LoadGenderAnalysis, LoadAgeGroupAnalysis,
      LoadRiskStratification, LoadDemographicInsights, LoadPopulationNorms] \<and>
   Error ''Error loading overview data:'' NetworkError
     \<in> set (console (snd (initializeDemographicAnalytics offline blank_page))) \<and>
   notifications (snd (initializeDemographicAnalytics offline blank_page)) = []"
  using initial_load_continues_after_overview_failure [of offline NetworkError blank_page]
  by (simp add: offline_def blank_page_def)

text \<open>
  C1 as stated fails: with the overview fetch rejected, the gender analysis step (and every
  later one) is invoked all the same.
\<close>

theorem initial_load_short_circuit_refuted:
  "dashboard_response overview_down = Rejected NetworkError \<and>
   LoadGenderAnalysis \<in> set (calls (snd (initializeDemographicAnalytics overview_down blank_page))) \<and>
   calls (snd (initializeDemographicAnalytics overview_down blank_page)) =
     [LoadOverviewData, LoadGenderAnalysis, LoadAgeGroupAnalysis,
      LoadRiskStratification, LoadDemographicInsights, LoadPopulationNorms]"
  by (simp add: overview_down_def blank_page_def blank_document_def targets_def
      initializeDemographicAnalytics_def loadOverviewData_def loadGenderAnalysis_def
      loadAgeGroupAnalysis_def loadRiskStratification_def loadDemographicInsights_def
      loadPopulationNorms_def try_catch_def fetch_json_def throw_def skip_def called_def
      console_error_def on_document_def forEach_def setInterval_def
      createGenderComparisonChart_def createGenderRiskChart_def createAgeDistributionChart_def
      createAgeRiskChart_def populateRiskLists_def populateInsightList_def clear_innerHTML_def
      appendChild_def newPlot_def femaleInsights_def maleInsights_def geriatricInsights_def
      pediatricInsights_def)

subsection \<open>The periodic refresh\<close>

lemma refresh_unfolds:
  assumes "loadOverviewData (dashboard_response net)
             (s\<lparr>console := console s @ [Log ''Updating demographic data...'']\<rparr>) = (None, s1)"
    and "loadGenderAnalysis (gender_response net) s1 = (None, s2)"
    and "loadAgeGroupAnalysis (age_response net) s2 = (None, s3)"
  shows "updateDemographicData net s =
       (None, s3\<lparr>notifications := notifications s3 @
          [Element ''div'' ''notification notification-success''
             [Element ''i'' ''fas fa-check-circle'' [],
              Element ''span'' [] [Text [Lit ''Demographic data updated'']]]]\<rparr>)"
  using assms
  by (simp add: updateDemographicData_def console_log_def try_catch_def
      showNotification_def getNotificationIcon_def)

lemma refresh_settles:
  "\<exists>s'. updateDemographicData net s =
       (None, s'\<lparr>notifications := notifications s @
          [Element ''div'' ''notification notification-success''
             [Element ''i'' ''fas fa-check-circle'' [],
              Element ''span'' [] [Text [Lit ''Demographic data updated'']]]]\<rparr>) \<and>
     entered s [LoadOverviewData, LoadGenderAnalysis, LoadAgeGroupAnalysis] s'"
proof -
  let ?s0 = "s\<lparr>console := console s @ [Log ''Updating demographic data...'']\<rparr>"
  obtain s1 where 1: "loadOverviewData (dashboard_response net) ?s0 = (None, s1)"
      and e1: "entered ?s0 [LoadOverviewData] s1"
    using loadOverviewData_settles by blast
  obtain s2 where 2: "loadGenderAnalysis (gender_response net) s1 = (None, s2)"
      and e2: "entered s1 [LoadGenderAnalysis] s2"
    using loadGenderAnalysis_settles by blast
  obtain s3 where 3: "loadAgeGroupAnalysis (age_response net) s2 = (None, s3)"
      and e3: "entered s2 [LoadAgeGroupAnalysis] s3"
    using loadAgeGroupAnalysis_settles by blast
  have "entered ?s0 [LoadOverviewData, LoadGenderAnalysis, LoadAgeGroupAnalysis] s3"
    using entered_trans [OF e1 entered_trans [OF e2 e3]] by simp
  then have e: "entered s [LoadOverviewData, LoadGenderAnalysis, LoadAgeGroupAnalysis] s3"
    by (auto simp: entered_def)
  then have "notifications s3 = notifications s"
    by (simp add: entered_def)
  then show ?thesis
    using refresh_unfolds [OF 1 2 3] e by auto
qed

text \<open>A step whose fetch is rejected leaves its error in the console of the whole cycle.\<close>

lemma refresh_logs:
  "(dashboard_response net = Rejected e1 \<longrightarrow>
      Error ''Error loading overview data:'' e1 \<in> set (console (snd (updateDemographicData net s)))) \<and>
   (gender_response net = Rejected e2 \<longrightarrow>
      Error ''Error loading gender analysis:'' e2 \<in> set (console (snd (updateDemographicData net s)))) \<and>
   (age_response net = Rejected e3 \<longrightarrow>
      Error ''Error loading age group analysis:'' e3 \<in> set (console (snd (updateDemographicData net s))))"
proof -
  let ?s0 = "s\<lparr>console := console s @ [Log ''Updating demographic data...'']\<rparr>"
  obtain s1 where 1: "loadOverviewData (dashboard_response net) ?s0 = (None, s1)"
      and e1: "entered ?s0 [LoadOverviewData] s1"
    using loadOverviewData_settles by blast
  obtain s2 where 2: "loadGenderAnalysis (gender_response net) s1 = (None, s2)"
      and e2: "entered s1 [LoadGenderAnalysis] s2"
    using loadGenderAnalysis_settles by blast
  obtain s3 where 3: "loadAgeGroupAnalysis (age_response net) s2 = (None, s3)"
      and e3: "entered s2 [LoadAgeGroupAnalysis] s3"
    using loadAgeGroupAnalysis_settles by blast
  have result: "console (snd (updateDemographicData net s)) = console s3"
    by (simp add: refresh_unfolds [OF 1 2 3])
  have grow: "set (console s1) \<subseteq> set (console s2)" "set (console s2) \<subseteq> set (console s3)"
    using e2 e3 by (auto simp: entered_def)
  have "Error ''Error loading overview data:'' e1 \<in> set (console s1)"
    if "dashboard_response net = Rejected e1"
    using 1 that by (auto simp: loadOverviewData_rejected)
  moreover have "Error ''Error loading gender analysis:'' e2 \<in> set (console s2)"
    if "gender_response net = Rejected e2"
    using 2 that by (auto simp: loadGenderAnalysis_rejected)
  moreover have "Error ''Error loading age group analysis:'' e3 \<in> set (console s3)"
    if "age_response net = Rejected e3"
    using 3 that by (auto simp: loadAgeGroupAnalysis_rejected)
  ultimately show ?thesis
    using grow result by auto
qed

text \<open>
  C4, as amended: in every periodic refresh cycle the success notification is shown once
  the three steps (overview, gender analysis, age-group analysis) have run, whether they
  succeeded or failed; a step whose fetch is rejected only logs its failure, and no error
  notification is surfaced.
\<close>

theorem refresh_notifies_success_whatever_fails:
  "fst (updateDemographicData net s) = None \<and>
   notifications (snd (updateDemographicData net s)) =
     notifications s @
       [Element ''div'' ''notification notification-success''
          [Element ''i'' ''fas fa-check-circle'' [],
           Element ''span'' [] [Text [Lit ''Demographic data updated'']]]] \<and>
   (dashboard_response net = Rejected e1 \<longrightarrow>
      Error ''Error loading overview data:'' e1 \<in> set (console (snd (updateDemographicData net s)))) \<and>
   (gender_response net = Rejected e2 \<longrightarrow>
      Error ''Error loading gender analysis:'' e2 \<in> set (console (snd (updateDemographicData net s)))) \<and>
   (age_response net = Rejected e3 \<longrightarrow>
      Error ''Error loading age group analysis:'' e3 \<in> set (console (snd (updateDemographicData net s))))"
proof -
  obtain s' where "updateDemographicData net s =
       (None, s'\<lparr>notifications := notifications s @
          [Element ''div'' ''notification notification-success''
             [Element ''i'' ''fas fa-check-circle'' [],
              Element ''span'' [] [Text [Lit ''Demographic data updated'']]]]\<rparr>)"
    using refresh_settles by blast
  then show ?thesis
    using refresh_logs [of net e1 s e2 e3] by simp
qed

theorem refresh_notifies_success_offline:
  "dashboard_response offline = Rejected NetworkError \<and>
   gender_response offline = Rejected NetworkError \<and>
   age_response offline = Rejected ParseError \<and>
   notifications (snd (updateDemographicData offline blank_page)) =
       [Element ''div'' ''notification notification-success''
          [Element ''i'' ''fas fa-check-circle'' [],
           Element ''span'' [] [Text [Lit ''Demographic data updated'']]]] \<and>
   Error ''Error loading overview data:'' NetworkError
     \<in> set (console (snd (updateDemographicData offline blank_page))) \<and>
   Error ''Error loading gender analysis:'' NetworkError
     \<in> set (console (snd (updateDemographicData offline blank_page))) \<and>
   Error ''Error loading age group analysis:'' ParseError
     \<in> set (console (snd (updateDemographicData offline blank_page)))"
  using refresh_notifies_success_whatever_fails
          [of offline blank_page NetworkError NetworkError ParseError]
  by (simp add: offline_def blank_page_def)

text \<open>
  C4 as stated fails: in a cycle whose overview fetch is rejected the failure is logged and
  the success notification is shown nevertheless.
\<close>

theorem refresh_success_iff_refuted:
  "dashboard_response overview_down = Rejected NetworkError \<and>
   console (snd (updateDemographicData overview_down blank_page)) =
     [Log ''Updating demographic data...'',
      Error ''Error loading overview data:'' NetworkError] \<and>
   notifications (snd (updateDemographicData overview_down blank_page)) =
     [Element ''div'' ''notification notification-success''
        [Element ''i'' ''fas fa-check-circle'' [],
         Element ''span'' [] [Text [Lit ''Demographic data updated'']]]]"
  by (simp add: overview_down_def blank_page_def blank_document_def targets_def
      updateDemographicData_def loadOverviewData_def loadGenderAnalysis_def
      loadAgeGroupAnalysis_def try_catch_def fetch_json_def throw_def skip_def called_def
      console_error_def console_log_def on_document_def
      createGenderComparisonChart_def createGenderRiskChart_def createAgeDistributionChart_def
      createAgeRiskChart_def newPlot_def showNotification_def getNotificationIcon_def)

lemma fire_next_single:
  assumes "timers s = [\<lparr>handler = UpdateDemographicData, period = p, due = t\<rparr>]"
  shows "timers (fire_next net s) = [\<lparr>handler = UpdateDemographicData, period = p, due = t + p\<rparr>] \<and>
         clock (fire_next net s) = max (clock s) t \<and>
         calls (fire_next net s) =
           calls s @ [LoadOverviewData, LoadGenderAnalysis, LoadAgeGroupAnalysis]"
proof -
  let ?s0 = "s\<lparr>clock := max (clock s) t,
                 timers := [\<lparr>handler = UpdateDemographicData, period = p, due = t + p\<rparr>]\<rparr>"
  have fire: "fire_next net s = snd (updateDemographicData net ?s0)"
    using assms by (simp add: fire_next_def)
  obtain s' where "updateDemographicData net ?s0 =
       (None, s'\<lparr>notifications := notifications ?s0 @
          [Element ''div'' ''notification notification-success''
             [Element ''i'' ''fas fa-check-circle'' [],
              Element ''span'' [] [Text [Lit ''Demographic data updated'']]]]\<rparr>)"
    and "entered ?s0 [LoadOverviewData, LoadGenderAnalysis, LoadAgeGroupAnalysis] s'"
    using refresh_settles by blast
  then show ?thesis
    unfolding fire by (simp add: entered_def)
qed

lemma run_single:
  assumes "timers s = [\<lparr>handler = UpdateDemographicData, period = p, due = t\<rparr>]"
    and "clock s \<le> t"
  shows "timers (run nets s) =
           [\<lparr>handler = UpdateDemographicData, period = p, due = t + length nets * p\<rparr>] \<and>
         calls (run nets s) =
           calls s @ concat (map (\<lambda>net. [LoadOverviewData, LoadGenderAnalysis, LoadAgeGroupAnalysis]) nets) \<and>
         (nets \<noteq> [] \<longrightarrow> clock (run nets s) + p = t + length nets * p)"
  using assms
proof (induction nets arbitrary: s t)
  case Nil
  then show ?case by simp
next
  case (Cons net nets)
  let ?s = "fire_next net s"
  have step: "timers ?s = [\<lparr>handler = UpdateDemographicData, period = p, due = t + p\<rparr>]"
    "clock ?s = max (clock s) t"
    "calls ?s = calls s @ [LoadOverviewData, LoadGenderAnalysis, LoadAgeGroupAnalysis]"
    using fire_next_single [OF Cons.prems(1)] by simp_all
  have "clock ?s \<le> t + p"
    using step(2) Cons.prems(2) by simp
  from Cons.IH [OF step(1) this] step Cons.prems(2)
  show ?case
    by (cases nets) (simp_all add: max_def)
qed

text \<open>
  C6: the periodic refresh fires every 300,000 ms, runs exactly the overview, gender
  analysis and age-group analysis steps, and no cycle cancels the timer.  On a page with
  no interval registered before, the initial load registers one interval, of period
  300000 with \<open>updateDemographicData\<close> as callback; whatever the network does in the
  cycles \<open>nets\<close> (each may fail in any way), the runtime fires one cycle per period, the
  n-th at 300000 * n after the registration, every cycle enters exactly the three steps,
  and the interval stays registered, due one period after the last cycle.
\<close>

theorem periodic_refresh_keeps_firing:
  assumes "timers s = []"
  shows "timers (snd (initializeDemographicAnalytics net s)) =
           [\<lparr>handler = UpdateDemographicData, period = 300000, due = clock s + 300000\<rparr>] \<and>
         timers (run nets (snd (initializeDemographicAnalytics net s))) =
           [\<lparr>handler = UpdateDemographicData, period = 300000,
             due = clock s + 300000 * (length nets + 1)\<rparr>] \<and>
         calls (run nets (snd (initializeDemographicAnalytics net s))) =
           calls (snd (initializeDemographicAnalytics net s)) @
           concat (map (\<lambda>cycle. [LoadOverviewData, LoadGenderAnalysis, LoadAgeGroupAnalysis]) nets) \<and>
         (nets \<noteq> [] \<longrightarrow>
            clock (run nets (snd (initializeDemographicAnalytics net s))) =
              clock s + 300000 * length nets)"
proof -
  let ?s1 = "snd (initializeDemographicAnalytics net s)"
  obtain s' where "initializeDemographicAnalytics net s =
       (None, s'\<lparr>timers := timers s @
          [\<lparr>handler = UpdateDemographicData, period = 300000, due = clock s + 300000\<rparr>]\<rparr>)"
    and "entered s
       [LoadOverviewData, LoadGenderAnalysis, LoadAgeGroupAnalysis, LoadRiskStratification,
        LoadDemographicInsights, LoadPopulationNorms] s'"
    using initial_load_settles by blast
  then have t: "timers ?s1 =
      [\<lparr>handler = UpdateDemographicData, period = 300000, due = clock s + 300000\<rparr>]"
    and c: "clock ?s1 = clock s"
    using assms by (simp_all add: entered_def)
  have "clock ?s1 \<le> clock s + 300000"
    using c by simp
  from run_single [OF t this, of nets] t
  show ?thesis
    by (auto simp: algebra_simps)
qed

theorem periodic_refresh_after_failed_cycles:
  "timers blank_page = [] \<and>
   timers (run [offline, overview_down] (snd (initializeDemographicAnalytics offline blank_page))) =
     [\<lparr>handler = UpdateDemographicData, period = 300000, due = 900000\<rparr>] \<and>
   calls (run [offline, overview_down] (snd (initializeDemographicAnalytics offline blank_page))) =
     calls (snd (initializeDemographicAnalytics offline blank_page)) @
     [LoadOverviewData, LoadGenderAnalysis, LoadAgeGroupAnalysis,
      LoadOverviewData, LoadGenderAnalysis, LoadAgeGroupAnalysis] \<and>
   clock (run [offline, overview_down] (snd (initializeDemographicAnalytics offline blank_page))) =
     600000"
  using periodic_refresh_keeps_firing [of blank_page offline "[offline, overview_down]"]
  by (simp add: blank_page_def)

subsection \<open>Rendering\<close>

lemma forEach_Nil: "forEach [] f d = (None, d)"
  by (simp add: forEach_def)

lemma forEach_Cons:
  "forEach (item # items) f d =
     (case f item d of (None, d') \<Rightarrow> forEach items f d' | (Some e, d') \<Rightarrow> (Some e, d'))"
  unfolding forEach_def by simp

lemma appendChild_Some: "d i = Some kids \<Longrightarrow> appendChild i c d = (None, d(i \<mapsto> kids @ [c]))"
  by (simp add: appendChild_def)

lemma forEach_appendChild:
  "d i = Some kids \<Longrightarrow>
   forEach items (\<lambda>item. appendChild i (f item)) d = (None, d(i \<mapsto> kids @ map f items))"
proof (induction items arbitrary: d kids)
  case Nil
  then show ?case by (auto simp: forEach_Nil)
next
  case (Cons item items)
  have "forEach items (\<lambda>item. appendChild i (f item)) (d(i \<mapsto> kids @ [f item])) =
      (None, (d(i \<mapsto> kids @ [f item]))(i \<mapsto> (kids @ [f item]) @ map f items))"
    by (rule Cons.IH) simp
  then show ?case
    using Cons.prems by (simp add: forEach_Cons appendChild_Some) (simp add: fun_upd_def)
qed

lemma populateInsightList_eq:
  "populateInsightList listId insights d =
     (None, if d listId = None then d
            else d(listId \<mapsto> map (\<lambda>insight. Element ''li'' [] [Text [Lit insight]]) insights))"
proof (cases "d listId")
  case None
  then show ?thesis by (simp add: populateInsightList_def)
next
  case (Some kids)
  have "forEach insights (\<lambda>insight. appendChild listId (Element ''li'' [] [Text [Lit insight]]))
          (d(listId \<mapsto> [])) =
        (None, (d(listId \<mapsto> []))(listId \<mapsto> [] @ map (\<lambda>insight. Element ''li'' [] [Text [Lit insight]]) insights))"
    by (rule forEach_appendChild) simp
  then show ?thesis
    using Some by (simp add: populateInsightList_def clear_innerHTML_def)
qed

lemma populateInsightList_idem:
  "twice (populateInsightList listId insights) d = once (populateInsightList listId insights) d"
  by (simp add: twice_def once_def populateInsightList_eq)

text \<open>
  The loop over the server's groups appends to the high-risk list only, the items of the
  groups before the first one without a mean risk.
\<close>

lemma forEach_append_high_risk:
  "\<exists>r items. \<forall>d kids. d ''high-risk-list'' = Some kids \<longrightarrow>
     forEach groups append_high_risk d = (r, d(''high-risk-list'' \<mapsto> kids @ items))"
proof (induction groups)
  case Nil
  have "\<forall>d kids. d ''high-risk-list'' = Some kids \<longrightarrow>
     forEach [] append_high_risk d = (None, d(''high-risk-list'' \<mapsto> kids @ []))"
    by (auto simp: forEach_Nil)
  then show ?case by blast
next
  case (Cons g groups)
  then obtain r items where IH: "\<And>d kids. d ''high-risk-list'' = Some kids \<Longrightarrow>
     forEach groups append_high_risk d = (r, d(''high-risk-list'' \<mapsto> kids @ items))"
    by blast
  show ?case
  proof (cases "mean_risk g")
    case None
    then have "\<forall>d kids. d ''high-risk-list'' = Some kids \<longrightarrow>
       forEach (g # groups) append_high_risk d = (Some TypeError, d(''high-risk-list'' \<mapsto> kids @ []))"
      by (auto simp: forEach_Cons append_high_risk_def throw_def)
    then show ?thesis by blast
  next
    case (Some x)
    let ?item = "risk_item ''risk-item risk-high''
               (Lit (case demographic g of None \<Rightarrow> ''undefined'' | Some label \<Rightarrow> label))
               (Fixed2 x)"
    have "forEach (g # groups) append_high_risk d =
        (r, d(''high-risk-list'' \<mapsto> kids @ (?item # items)))"
      if "d ''high-risk-list'' = Some kids" for d kids
    proof -
      have "forEach groups append_high_risk (d(''high-risk-list'' \<mapsto> kids @ [?item])) =
        (r, (d(''high-risk-list'' \<mapsto> kids @ [?item]))(''high-risk-list'' \<mapsto> (kids @ [?item]) @ items))"
        by (rule IH) simp
      then show ?thesis
        using that Some by (simp add: forEach_Cons append_high_risk_def appendChild_Some)
    qed
    then show ?thesis by blast
  qed
qed


lemma clear_innerHTML_Some: "d i = Some kids \<Longrightarrow> clear_innerHTML i d = (None, d(i \<mapsto> []))"
  by (simp add: clear_innerHTML_def)

lemma clear_innerHTML_None: "d i = None \<Longrightarrow> clear_innerHTML i d = (Some TypeError, d)"
  by (simp add: clear_innerHTML_def)

lemma populateRiskLists_present:
  assumes "d ''high-risk-list'' = Some a" "d ''medium-risk-list'' = Some b"
    "d ''low-risk-list'' = Some c"
  shows "populateRiskLists data d =
     (case high_risk_demographics data of
        None \<Rightarrow>
          (None, d(''high-risk-list'' \<mapsto> [], ''medium-risk-list'' \<mapsto> [], ''low-risk-list'' \<mapsto> []))
      | Some groups \<Rightarrow>
          (case forEach groups append_high_risk
                  (d(''high-risk-list'' \<mapsto> [], ''medium-risk-list'' \<mapsto> [], ''low-risk-list'' \<mapsto> [])) of
             (None, d') \<Rightarrow>
               (None, d'(''medium-risk-list'' \<mapsto> medium_nodes, ''low-risk-list'' \<mapsto> low_nodes))
           | (Some e, d') \<Rightarrow> (Some e, d')))"
proof -
  let ?d0 = "d(''high-risk-list'' \<mapsto> [], ''medium-risk-list'' \<mapsto> [], ''low-risk-list'' \<mapsto> [])"
  have lists: "\<And>d'. d' ''medium-risk-list'' = Some [] \<Longrightarrow> d' ''low-risk-list'' = Some [] \<Longrightarrow>
      block
        [forEach mediumRiskItems (\<lambda>(label, r).
               appendChild ''medium-risk-list''
                 (risk_item ''risk-item risk-medium'' (Lit label) (Fixed2 r))),
         forEach lowRiskItems (\<lambda>(label, r).
               appendChild ''low-risk-list''
                 (risk_item ''risk-item risk-low'' (Lit label) (Fixed2 r)))] d' =
      (None, d'(''medium-risk-list'' \<mapsto> medium_nodes, ''low-risk-list'' \<mapsto> low_nodes))"
    by (simp add: mediumRiskItems_def lowRiskItems_def forEach_Cons forEach_Nil appendChild_Some
        medium_nodes_def low_nodes_def)
  have keep: "d' ''medium-risk-list'' = Some [] \<and> d' ''low-risk-list'' = Some []"
    if "forEach groups append_high_risk ?d0 = (r, d')" for groups r d'
  proof -
    obtain r' items where "\<And>d kids. d ''high-risk-list'' = Some kids \<Longrightarrow>
       forEach groups append_high_risk d = (r', d(''high-risk-list'' \<mapsto> kids @ items))"
      using forEach_append_high_risk by blast
    from this [of ?d0 "[]"] that show ?thesis by auto
  qed
  show ?thesis
  proof (cases "high_risk_demographics data")
    case None
    then show ?thesis
      using assms by (simp add: populateRiskLists_def clear_innerHTML_Some skip_def)
  next
    case (Some groups)
    obtain r d' where run: "forEach groups append_high_risk ?d0 = (r, d')"
      by (cases "forEach groups append_high_risk ?d0")
    show ?thesis
    proof (cases r)
      case None
      with run keep [OF run] lists [of d'] Some assms show ?thesis
        by (simp add: populateRiskLists_def clear_innerHTML_Some)
    next
      case (Some e)
      with run \<open>high_risk_demographics data = Some groups\<close> assms show ?thesis
        by (simp add: populateRiskLists_def clear_innerHTML_Some)
    qed
  qed
qed


lemma populateRiskLists_overwrites:
  "\<exists>r hs ms ls. \<forall>d. d ''high-risk-list'' \<noteq> None \<and> d ''medium-risk-list'' \<noteq> None \<and>
       d ''low-risk-list'' \<noteq> None \<longrightarrow>
     populateRiskLists data d =
       (r, d(''high-risk-list'' \<mapsto> hs, ''medium-risk-list'' \<mapsto> ms, ''low-risk-list'' \<mapsto> ls))"
proof (cases "high_risk_demographics data")
  case None
  then have "\<forall>d. d ''high-risk-list'' \<noteq> None \<and> d ''medium-risk-list'' \<noteq> None \<and>
       d ''low-risk-list'' \<noteq> None \<longrightarrow>
     populateRiskLists data d =
       (None, d(''high-risk-list'' \<mapsto> [], ''medium-risk-list'' \<mapsto> [], ''low-risk-list'' \<mapsto> []))"
    by (auto simp: populateRiskLists_present)
  then show ?thesis by blast
next
  case (Some groups)
  obtain r items where loop: "\<And>d kids. d ''high-risk-list'' = Some kids \<Longrightarrow>
       forEach groups append_high_risk d = (r, d(''high-risk-list'' \<mapsto> kids @ items))"
    using forEach_append_high_risk by blast
  have "populateRiskLists data d =
       (r, d(''high-risk-list'' \<mapsto> items,
             ''medium-risk-list'' \<mapsto> (if r = None then medium_nodes else []),
             ''low-risk-list'' \<mapsto> (if r = None then low_nodes else [])))"
    if "d ''high-risk-list'' \<noteq> None \<and> d ''medium-risk-list'' \<noteq> None \<and>
       d ''low-risk-list'' \<noteq> None" for d
  proof -
    let ?d0 = "d(''high-risk-list'' \<mapsto> [], ''medium-risk-list'' \<mapsto> [], ''low-risk-list'' \<mapsto> [])"
    have "forEach groups append_high_risk ?d0 = (r, ?d0(''high-risk-list'' \<mapsto> [] @ items))"
      by (rule loop) simp
    moreover have "?d0(''high-risk-list'' \<mapsto> [] @ items) =
        d(''high-risk-list'' \<mapsto> items, ''medium-risk-list'' \<mapsto> [], ''low-risk-list'' \<mapsto> [])"
      by (rule ext) simp
    ultimately show ?thesis
      using that Some by (cases r) (auto simp: populateRiskLists_present)
  qed
  then show ?thesis by blast
qed

lemma populateRiskLists_idem:
  "twice (populateRiskLists data) d = once (populateRiskLists data) d"
proof -
  consider (no_high) "d ''high-risk-list'' = None"
    | (no_medium) "d ''high-risk-list'' \<noteq> None" "d ''medium-risk-list'' = None"
    | (no_low) "d ''high-risk-list'' \<noteq> None" "d ''medium-risk-list'' \<noteq> None"
        "d ''low-risk-list'' = None"
    | (present) "d ''high-risk-list'' \<noteq> None \<and> d ''medium-risk-list'' \<noteq> None \<and>
        d ''low-risk-list'' \<noteq> None"
    by blast
  then show ?thesis
  proof cases
    case no_high
    then show ?thesis
      by (simp add: twice_def once_def populateRiskLists_def clear_innerHTML_None)
  next
    case no_medium
    then show ?thesis
      by (auto simp: twice_def once_def populateRiskLists_def clear_innerHTML_def)
  next
    case no_low
    then show ?thesis
      by (auto simp: twice_def once_def populateRiskLists_def clear_innerHTML_def)
  next
    case present
    obtain r hs ms ls where eq: "\<And>d. d ''high-risk-list'' \<noteq> None \<and>
        d ''medium-risk-list'' \<noteq> None \<and> d ''low-risk-list'' \<noteq> None \<Longrightarrow>
      populateRiskLists data d =
        (r, d(''high-risk-list'' \<mapsto> hs, ''medium-risk-list'' \<mapsto> ms, ''low-risk-list'' \<mapsto> ls))"
      using populateRiskLists_overwrites by blast
    let ?d1 = "d(''high-risk-list'' \<mapsto> hs, ''medium-risk-list'' \<mapsto> ms, ''low-risk-list'' \<mapsto> ls)"
    have 1: "populateRiskLists data d = (r, ?d1)"
      using present by (rule eq)
    have 2: "populateRiskLists data ?d1 =
        (r, ?d1(''high-risk-list'' \<mapsto> hs, ''medium-risk-list'' \<mapsto> ms, ''low-risk-list'' \<mapsto> ls))"
      by (rule eq) simp
    have "?d1(''high-risk-list'' \<mapsto> hs, ''medium-risk-list'' \<mapsto> ms, ''low-risk-list'' \<mapsto> ls) = ?d1"
      by (rule ext) simp
    then show ?thesis
      by (simp add: twice_def once_def 1 2)
  qed
qed


lemma newPlot_eq:
  "newPlot i traces title d =
     (if d i = None then (Some PlotlyError, d) else (None, d(i \<mapsto> [Plot traces title])))"
  by (simp add: newPlot_def split: option.splits)

lemma set_textContent_eq:
  "set_textContent i text d =
     (if d i = None then (Some TypeError, d) else (None, d(i \<mapsto> [Text text])))"
  by (simp add: set_textContent_def split: option.splits)

lemma createGenderComparisonChart_idem:
  "twice (createGenderComparisonChart data) d = once (createGenderComparisonChart data) d"
  by (simp add: twice_def once_def createGenderComparisonChart_def newPlot_eq skip_def Let_def
      split: option.splits)

lemma createGenderRiskChart_idem:
  "twice (createGenderRiskChart data) d = once (createGenderRiskChart data) d"
  by (simp add: twice_def once_def createGenderRiskChart_def newPlot_eq)

lemma createAgeDistributionChart_idem:
  "twice (createAgeDistributionChart data) d = once (createAgeDistributionChart data) d"
  by (simp add: twice_def once_def createAgeDistributionChart_def newPlot_eq skip_def Let_def
      split: option.splits)

lemma createAgeRiskChart_idem:
  "twice (createAgeRiskChart data) d = once (createAgeRiskChart data) d"
  by (simp add: twice_def once_def createAgeRiskChart_def newPlot_eq skip_def Let_def
      split: option.splits)

text \<open>What a load step leaves in the document is what its rendering leaves there.\<close>

lemma load_document:
  "document (snd (block [called f, try_catch (on_document a) (console_error m)] s)) =
     snd (a (document s))"
  by (cases "a (document s)")
     (auto simp: called_def try_catch_def on_document_def console_error_def split: option.splits)

lemma load_idem:
  assumes "twice a (document s) = once a (document s)"
  shows "document (twice (block [called f, try_catch (on_document a) (console_error m)]) s) =
         document (once (block [called f, try_catch (on_document a) (console_error m)]) s)"
  using assms unfolding twice_def once_def load_document .

lemma fetch_on_document:
  "fetch_json response (\<lambda>data. on_document (a data)) =
     on_document (case response of Rejected e \<Rightarrow> throw e | Body data \<Rightarrow> a data)"
  by (cases response) (auto simp: fetch_json_def on_document_def throw_def fun_eq_iff)

lemma skip_on_document: "skip = on_document skip"
  by (auto simp: on_document_def skip_def fun_eq_iff)

lemma three_writes_idem:
  "twice (block [set_textContent i t, set_textContent j u, set_textContent k v]) d =
   once (block [set_textContent i t, set_textContent j u, set_textContent k v]) d"
  by (auto simp: twice_def once_def set_textContent_eq)

lemma throw_first_idem: "twice (block (throw e # rest)) d = once (block (throw e # rest)) d"
  by (simp add: twice_def once_def throw_def)


lemma loadOverviewData_idem:
  "document (twice (loadOverviewData response) s) = document (once (loadOverviewData response) s)"
proof -
  let ?render = "\<lambda>data. case summary data of
             None \<Rightarrow> skip
           | Some sm \<Rightarrow>
               block
                [case total_patients sm of
                   None \<Rightarrow> throw TypeError
                 | Some n \<Rightarrow> set_textContent ''total-patients'' [Locale n],
                 set_textContent ''average-age''
                   [NumStr (averageAge
                      (case age_group_distribution sm of None \<Rightarrow> [] | Some distribution \<Rightarrow> distribution)),
                    Lit '' years''],
                 let genderDist =
                       (case gender_distribution sm of
                          None \<Rightarrow> \<lparr>male = None, female = None, other = None\<rparr>
                        | Some g \<Rightarrow> g)
                 in set_textContent ''gender-distribution''
                      [Lit ''M:'', NumStr (or_else (field (male genderDist)) (Num 0)),
                       Lit '' F:'', NumStr (or_else (field (female genderDist)) (Num 0)),
                       Lit '' O:'', NumStr (or_else (field (other genderDist)) (Num 0))]]"
  let ?a = "case response of Rejected e \<Rightarrow> throw e | Body data \<Rightarrow> ?render data"
  have def: "loadOverviewData response =
      block [called LoadOverviewData,
             try_catch (on_document ?a) (console_error ''Error loading overview data:'')]"
    unfolding loadOverviewData_def fetch_on_document [symmetric]
    by (simp add: skip_on_document option.case_distrib [of on_document] cong: option.case_cong)
  have "twice (?render data) d = once (?render data) d" for data d
  proof (cases "summary data")
    case None
    then show ?thesis by (simp add: twice_def once_def skip_def)
  next
    case (Some sm)
    show ?thesis
    proof (cases "total_patients sm")
      case None
      with Some show ?thesis
        by (simp add: Let_def throw_first_idem)
    next
      case (Some n)
      with \<open>summary data = Some sm\<close> show ?thesis
        by (simp add: Let_def three_writes_idem)
    qed
  qed
  then have "twice ?a (document s) = once ?a (document s)"
    by (cases response) (simp_all add: twice_def once_def throw_def)
  then show ?thesis
    unfolding def by (rule load_idem)
qed


lemma loadPopulationNorms_idem:
  "document (twice loadPopulationNorms s) = document (once loadPopulationNorms s)"
  unfolding loadPopulationNorms_def
proof (rule load_idem)
  let ?rows = "map norms_row
        [''Neonate'', ''Infant'', ''Toddler'', ''Preschool'', ''School Age'',
         ''Adolescent'', ''Young Adult'', ''Middle Adult'', ''Geriatric'']"
  let ?fill = "block
     [clear_innerHTML ''#population-norms-table tbody'',
      forEach
        [''Neonate'', ''Infant'', ''Toddler'', ''Preschool'', ''School Age'',
         ''Adolescent'', ''Young Adult'', ''Middle Adult'', ''Geriatric'']
        (\<lambda>ageGroup. appendChild ''#population-norms-table tbody'' (norms_row ageGroup))]"
  have fill: "?fill d =
      (if d ''#population-norms-table tbody'' = None then (Some TypeError, d)
       else (None, d(''#population-norms-table tbody'' \<mapsto> ?rows)))" for d
  proof (cases "d ''#population-norms-table tbody''")
    case None
    then show ?thesis by (simp add: clear_innerHTML_None)
  next
    case (Some kids)
    let ?d0 = "d(''#population-norms-table tbody'' \<mapsto> [])"
    have "forEach
        [''Neonate'', ''Infant'', ''Toddler'', ''Preschool'', ''School Age'',
         ''Adolescent'', ''Young Adult'', ''Middle Adult'', ''Geriatric'']
        (\<lambda>ageGroup. appendChild ''#population-norms-table tbody'' (norms_row ageGroup)) ?d0 =
      (None, ?d0(''#population-norms-table tbody'' \<mapsto> [] @ ?rows))"
      by (rule forEach_appendChild) simp
    then show ?thesis
      using Some by (simp add: clear_innerHTML_Some del: list.map)
  qed
  show "twice ?fill (document s) = once ?fill (document s)"
    unfolding twice_def once_def fill by simp
qed


lemma loadDemographicInsights_idem:
  "document (twice loadDemographicInsights s) = document (once loadDemographicInsights s)"
  unfolding loadDemographicInsights_def
proof (rule load_idem)
  let ?d = "document s"
  show "twice (block
          [populateInsightList ''female-insights'' femaleInsights,
           populateInsightList ''male-insights'' maleInsights,
           populateInsightList ''geriatric-insights'' geriatricInsights,
           populateInsightList ''pediatric-insights'' pediatricInsights]) ?d =
        once (block
          [populateInsightList ''female-insights'' femaleInsights,
           populateInsightList ''male-insights'' maleInsights,
           populateInsightList ''geriatric-insights'' geriatricInsights,
           populateInsightList ''pediatric-insights'' pediatricInsights]) ?d"
    by (cases "?d ''female-insights''"; cases "?d ''male-insights''";
        cases "?d ''geriatric-insights''"; cases "?d ''pediatric-insights''")
       (simp_all add: twice_def once_def populateInsightList_eq)
qed

text \<open>
  C7: every render function is idempotent.  Called a second time with the same input, each
  function that fills a display target (the insight lists, the three risk lists, the four
  charts, the overview fields, the insight lists as a whole and the table of population
  norms) leaves every target with exactly the children the first call left: the target is
  emptied or overwritten before it is filled, so nothing is appended twice.
\<close>

theorem render_functions_idempotent:
  "twice (populateInsightList listId insights) d = once (populateInsightList listId insights) d \<and>
   twice (populateRiskLists by_risk) d = once (populateRiskLists by_risk) d \<and>
   twice (createGenderComparisonChart by_gender) d = once (createGenderComparisonChart by_gender) d \<and>
   twice (createGenderRiskChart by_gender) d = once (createGenderRiskChart by_gender) d \<and>
   twice (createAgeDistributionChart by_age) d = once (createAgeDistributionChart by_age) d \<and>
   twice (createAgeRiskChart by_age) d = once (createAgeRiskChart by_age) d \<and>
   document (twice (loadOverviewData response) s) = document (once (loadOverviewData response) s) \<and>
   document (twice loadDemographicInsights s) = document (once loadDemographicInsights s) \<and>
   document (twice loadPopulationNorms s) = document (once loadPopulationNorms s)"
  by (simp only: populateInsightList_idem populateRiskLists_idem
      createGenderComparisonChart_idem createGenderRiskChart_idem
      createAgeDistributionChart_idem createAgeRiskChart_idem loadOverviewData_idem
      loadDemographicInsights_idem loadPopulationNorms_idem simp_thms)

lemma forEach_map: "forEach (map g items) f = forEach items (\<lambda>item. f (g item))"
  by (simp add: forEach_def comp_def)


text \<open>
  Where every group of the array has a mean risk (and the page has the three lists), the
  lists come out as described: one high-risk item per group, in array order, each with the
  group's demographic and its mean risk to two decimals interpolated into the markup of
  the template, and the two fixed items in the medium-risk and in the low-risk list.
\<close>

lemma risk_lists_of_complete_groups:
  assumes \<open>d ''high-risk-list'' = Some highs\<close> and \<open>d ''medium-risk-list'' = Some mediums\<close>
    and \<open>d ''low-risk-list'' = Some lows\<close>
    and \<open>high_risk_demographics data =
           Some (map (\<lambda>(label, r). \<lparr>demographic = label, mean_risk = Some r\<rparr>) entries)\<close>
  shows \<open>fst (populateRiskLists data d) = None \<and>
     snd (populateRiskLists data d) ''high-risk-list'' =
       Some (map (\<lambda>(label, r).
                    Element ''div'' ''risk-item risk-high''
                      [Markup
                        [Lit (CHR 0x0A # ''            <div class="risk-demographic">''),
                         Lit (case label of None \<Rightarrow> ''undefined'' | Some shown \<Rightarrow> shown),
                         Lit (''</div>'' @ CHR 0x0A # ''            <div class="risk-value">''),
                         Fixed2 r,
                         Lit (''</div>'' @ CHR 0x0A # ''        '')]])
               entries) \<and>
     snd (populateRiskLists data d) ''medium-risk-list'' =
       Some [Element ''div'' ''risk-item risk-medium''
               [Markup
                 [Lit (CHR 0x0A # ''            <div class="risk-demographic">''),
                  Lit ''Female, Young Adult'',
                  Lit (''</div>'' @ CHR 0x0A # ''            <div class="risk-value">''),
                  Fixed2 (42 / 100),
                  Lit (''</div>'' @ CHR 0x0A # ''        '')]],
             Element ''div'' ''risk-item risk-medium''
               [Markup
                 [Lit (CHR 0x0A # ''            <div class="risk-demographic">''),
                  Lit ''Male, Middle Adult'',
                  Lit (''</div>'' @ CHR 0x0A # ''            <div class="risk-value">''),
                  Fixed2 (38 / 100),
                  Lit (''</div>'' @ CHR 0x0A # ''        '')]]] \<and>
     snd (populateRiskLists data d) ''low-risk-list'' =
       Some [Element ''div'' ''risk-item risk-low''
               [Markup
                 [Lit (CHR 0x0A # ''            <div class="risk-demographic">''),
                  Lit ''Female, Adolescent'',
                  Lit (''</div>'' @ CHR 0x0A # ''            <div class="risk-value">''),
                  Fixed2 (18 / 100),
                  Lit (''</div>'' @ CHR 0x0A # ''        '')]],
             Element ''div'' ''risk-item risk-low''
               [Markup
                 [Lit (CHR 0x0A # ''            <div class="risk-demographic">''),
                  Lit ''Male, School Age'',
                  Lit (''</div>'' @ CHR 0x0A # ''            <div class="risk-value">''),
                  Fixed2 (15 / 100),
                  Lit (''</div>'' @ CHR 0x0A # ''        '')]]]\<close>
proof -
  let ?d0 = "d(''high-risk-list'' \<mapsto> [], ''medium-risk-list'' \<mapsto> [], ''low-risk-list'' \<mapsto> [])"
  let ?item = "\<lambda>(label, r). risk_item ''risk-item risk-high''
                      (Lit (case label of None \<Rightarrow> ''undefined'' | Some shown \<Rightarrow> shown)) (Fixed2 r)"
  have "forEach (map (\<lambda>(label, r). \<lparr>demographic = label, mean_risk = Some r\<rparr>) entries)
          append_high_risk =
        forEach entries (\<lambda>entry. appendChild ''high-risk-list'' (?item entry))"
    unfolding forEach_map
    by (rule arg_cong [where f = "forEach entries"])
       (auto simp: append_high_risk_def fun_eq_iff split: prod.splits)
  moreover have "forEach entries (\<lambda>entry. appendChild ''high-risk-list'' (?item entry)) ?d0 =
      (None, ?d0(''high-risk-list'' \<mapsto> [] @ map ?item entries))"
    by (rule forEach_appendChild) simp
  ultimately show ?thesis
    using assms
    by (simp add: populateRiskLists_present medium_nodes_def low_nodes_def risk_item_def
        split_def)
qed

text \<open>
  C9: for every risk response that contains a \<open>high_risk_demographics\<close> array the high-risk
  list gets one item per element, in array order, and the medium-risk and the low-risk list
  always get their two fixed items, whatever the response holds.  The code breaks this for
  an array with a group that has no \<open>mean_risk\<close>: of three groups, the second without it,
  only the first is rendered, \<open>group.mean_risk.toFixed(2)\<close> throws a \<open>TypeError\<close> at
  the second, the third is never reached, and the medium-risk and the low-risk list, cleared
  at the start, stay empty.
\<close>

theorem risk_lists_after_group_without_mean:
  \<open>fst (populateRiskLists second_without_mean blank_document) = Some TypeError \<and>
   snd (populateRiskLists second_without_mean blank_document) ''high-risk-list'' =
     Some [Element ''div'' ''risk-item risk-high''
             [Markup
               [Lit (CHR 0x0A # ''            <div class="risk-demographic">''),
                Lit ''Male, Geriatric'',
                Lit (''</div>'' @ CHR 0x0A # ''            <div class="risk-value">''),
                Fixed2 (81 / 100),
                Lit (''</div>'' @ CHR 0x0A # ''        '')]]] \<and>
   snd (populateRiskLists second_without_mean blank_document) ''medium-risk-list'' = Some [] \<and>
   snd (populateRiskLists second_without_mean blank_document) ''low-risk-list'' = Some []\<close>
  by (simp add: second_without_mean_def blank_document_def targets_def populateRiskLists_def
      clear_innerHTML_def forEach_def append_high_risk_def appendChild_def throw_def
      risk_item_def)

text \<open>
  C10: for every risk response without the \<open>high_risk_demographics\<close> field, the render
  empties all three lists and returns early: the high-risk, medium-risk and low-risk list
  all end up empty, the two fixed items of the medium-risk and low-risk list included.
\<close>

theorem risk_lists_cleared_when_field_absent:
  assumes "d ''high-risk-list'' = Some highs" and "d ''medium-risk-list'' = Some mediums"
    and "d ''low-risk-list'' = Some lows"
    and "high_risk_demographics data = None"
  shows "populateRiskLists data d =
     (None, d(''high-risk-list'' \<mapsto> [], ''medium-risk-list'' \<mapsto> [], ''low-risk-list'' \<mapsto> []))"
  using assms by (simp add: populateRiskLists_present)


theorem risk_lists_cleared_no_groups:
  "high_risk_demographics no_groups = None \<and>
   fst (populateRiskLists no_groups (snd (populateRiskLists two_groups blank_document))) = None \<and>
   snd (populateRiskLists no_groups (snd (populateRiskLists two_groups blank_document)))
     ''high-risk-list'' = Some [] \<and>
   snd (populateRiskLists no_groups (snd (populateRiskLists two_groups blank_document)))
     ''medium-risk-list'' = Some [] \<and>
   snd (populateRiskLists no_groups (snd (populateRiskLists two_groups blank_document)))
     ''low-risk-list'' = Some []"
proof -
  let ?d = "snd (populateRiskLists two_groups blank_document)"
  have present: "blank_document ''high-risk-list'' = Some []"
    "blank_document ''medium-risk-list'' = Some []" "blank_document ''low-risk-list'' = Some []"
    by (simp_all add: blank_document_def targets_def)
  obtain r hs ms ls where "populateRiskLists two_groups blank_document =
      (r, blank_document(''high-risk-list'' \<mapsto> hs, ''medium-risk-list'' \<mapsto> ms,
            ''low-risk-list'' \<mapsto> ls))"
    using populateRiskLists_overwrites [of two_groups] present by fastforce
  then have filled: "?d ''high-risk-list'' = Some hs" "?d ''medium-risk-list'' = Some ms"
    "?d ''low-risk-list'' = Some ls"
    by simp_all
  have absent: "high_risk_demographics no_groups = None"
    by (simp add: no_groups_def)
  show ?thesis
    using risk_lists_cleared_when_field_absent [OF filled absent] absent by simp
qed

text \<open>
  C3: a response in which a field that a render function reads is missing gets a neutral
  placeholder and the render functions do not throw.  That holds for the gender counts
  (\<open>|| 0\<close>) and the population norms (\<open>|| 'N/A'\<close>), not for \<open>mean_risk\<close> and
  \<open>total_patients\<close>: for a group without \<open>mean_risk\<close>, \<open>populateRiskLists\<close> throws a
  \<open>TypeError\<close> and leaves all three lists empty, and for a summary without
  \<open>total_patients\<close> the overview throws before it writes any of its three fields.
\<close>

theorem missing_field_throws:
  "fst (populateRiskLists risk_without_mean blank_document) = Some TypeError \<and>
   snd (populateRiskLists risk_without_mean blank_document) ''high-risk-list'' = Some [] \<and>
   snd (populateRiskLists risk_without_mean blank_document) ''medium-risk-list'' = Some [] \<and>
   snd (populateRiskLists risk_without_mean blank_document) ''low-risk-list'' = Some [] \<and>
   console (snd (loadOverviewData (Body summary_without_total) blank_page)) =
     [Error ''Error loading overview data:'' TypeError] \<and>
   document (snd (loadOverviewData (Body summary_without_total) blank_page)) = blank_document"
  by (simp add: risk_without_mean_def summary_without_total_def blank_page_def
      blank_document_def targets_def populateRiskLists_def clear_innerHTML_def forEach_def
      append_high_risk_def throw_def loadOverviewData_def called_def try_catch_def
      fetch_json_def on_document_def console_error_def)

end
